theory Spec2Isabelle
  imports Main
begin

section \<open>Python strings and the library functions the generator calls\<close>

text \<open>
  A Python \<^verbatim>\<open>str\<close> is a sequence of Unicode code points, so a string is a list of
  natural numbers (a \<^typ>\<open>char\<close> of HOL is a byte and could not hold the
  accented letters of a Portuguese header).  \<open>py\<close> embeds an ASCII literal.
\<close>

type_synonym pystr = "nat list"

definition py :: "string \<Rightarrow> pystr" where
  "py s = map of_char s"

text \<open>
  \<^verbatim>\<open>generate_sql.py\<close> calls five functions whose results are read from the Unicode
  character database of the interpreter, which is not part of the repository:
  \<^verbatim>\<open>unicodedata.normalize('NFKD', s)\<close>, \<^verbatim>\<open>unicodedata.combining(c)\<close>, \<^verbatim>\<open>s.lower()\<close>,
  \<^verbatim>\<open>c.isdigit()\<close> and the whitespace test behind \<^verbatim>\<open>s.strip()\<close>.  They are taken
  as a parameter of every function of the model.
\<close>

record pylib =
  nfkd :: "pystr \<Rightarrow> pystr"
  combining :: "nat \<Rightarrow> nat"
  lower :: "pystr \<Rightarrow> pystr"
  isdigit :: "nat \<Rightarrow> bool"
  isspace :: "nat \<Rightarrow> bool"

text \<open>\<^verbatim>\<open>s.strip(chars)\<close>: drop the characters of the set from both ends.\<close>

definition strip_chars :: "(nat \<Rightarrow> bool) \<Rightarrow> pystr \<Rightarrow> pystr" where
  "strip_chars P s = rev (dropWhile P (rev (dropWhile P s)))"

text \<open>\<^verbatim>\<open>sep.join(xs)\<close>.\<close>

fun join :: "pystr \<Rightarrow> pystr list \<Rightarrow> pystr" where
  "join sep [] = []"
| "join sep [x] = x"
| "join sep (x # y # ys) = x @ sep @ join sep (y # ys)"

text \<open>\<^verbatim>\<open>s.startswith(p)\<close> and the substring test \<^verbatim>\<open>sub in s\<close>.\<close>

fun startswith :: "pystr \<Rightarrow> pystr \<Rightarrow> bool" where
  "startswith [] s = True"
| "startswith (p # ps) [] = False"
| "startswith (p # ps) (c # cs) = (p = c \<and> startswith ps cs)"

fun contains :: "pystr \<Rightarrow> pystr \<Rightarrow> bool" where
  "contains sub [] = (sub = [])"
| "contains sub (c # cs) = (startswith sub (c # cs) \<or> contains sub cs)"

text \<open>\<^verbatim>\<open>s.find(sub)\<close>: the index of the first occurrence, \<open>None\<close> for Python's -1.\<close>

fun find_from :: "nat \<Rightarrow> pystr \<Rightarrow> pystr \<Rightarrow> nat option" where
  "find_from i sub [] = (if sub = [] then Some i else None)"
| "find_from i sub (c # cs) =
     (if startswith sub (c # cs) then Some i else find_from (i + 1) sub cs)"

definition str_find :: "pystr \<Rightarrow> pystr \<Rightarrow> nat option" where
  "str_find sub s = find_from 0 sub s"

text \<open>\<^verbatim>\<open>s.replace(c, r)\<close> for a pattern \<open>c\<close> of one character.\<close>

definition replace_char :: "nat \<Rightarrow> pystr \<Rightarrow> pystr \<Rightarrow> pystr" where
  "replace_char c r s = concat (map (\<lambda>x. if x = c then r else [x]) s)"

text \<open>The character class \<^verbatim>\<open>[a-zA-Z0-9]\<close> of the regular expression.\<close>

definition is_alnum :: "nat \<Rightarrow> bool" where
  "is_alnum c = ((97 \<le> c \<and> c \<le> 122) \<or> (65 \<le> c \<and> c \<le> 90) \<or> (48 \<le> c \<and> c \<le> 57))"

text \<open>
  \<^verbatim>\<open>re.sub(r'[^a-zA-Z0-9]+', '_', s)\<close>: scanning from the left, every maximal run of
  characters outside the class is replaced by one underscore (code point 95).
\<close>

function re_sub_nonalnum :: "pystr \<Rightarrow> pystr" where
  "re_sub_nonalnum [] = []"
| "re_sub_nonalnum (c # cs) =
     (if is_alnum c then c # re_sub_nonalnum cs
      else 95 # re_sub_nonalnum (dropWhile (\<lambda>x. \<not> is_alnum x) cs))"
  by pat_completeness auto
termination
  by (relation "measure length") (auto intro: le_imp_less_Suc length_dropWhile_le)

section \<open>The column normalizer, the value escaper and the type inferrer\<close>

definition normalizar_nome_coluna :: "pylib \<Rightarrow> pystr \<Rightarrow> pystr" where
  "normalizar_nome_coluna U nome =
     (let nfkd_nome = nfkd U nome;
          sem_acentos = filter (\<lambda>c. combining U c = 0) nfkd_nome;
          normalizado = re_sub_nonalnum sem_acentos;
          normalizado = strip_chars (\<lambda>c. c = 95) normalizado;
          normalizado = (if normalizado \<noteq> [] \<and> isdigit U (hd normalizado)
                         then py ''q_'' @ normalizado else normalizado)
      in lower U normalizado)"

text \<open>
  The value of \<^verbatim>\<open>normalizado\<close> after the underscores are stripped and before the
  digit test (lines 20 to 27 of the source), named to state what the later steps do.
\<close>

definition nucleo :: "pylib \<Rightarrow> pystr \<Rightarrow> pystr" where
  "nucleo U nome =
     strip_chars (\<lambda>c. c = 95) (re_sub_nonalnum (filter (\<lambda>c. combining U c = 0) (nfkd U nome)))"

text \<open>
  A value is a string or Python's \<^verbatim>\<open>None\<close>; \<^verbatim>\<open>str(valor)\<close> is the identity on a
  string.
\<close>

definition escapar_sql_string :: "pylib \<Rightarrow> pystr option \<Rightarrow> pystr" where
  "escapar_sql_string U valor =
     (case valor of
        None \<Rightarrow> py ''NULL''
      | Some v \<Rightarrow>
          if v = [] then py ''NULL''
          else let v1 = strip_chars (isspace U) v
               in if v1 = [] \<or> lower U v1 = py ''sem resposta*'' then py ''NULL''
                  else let valor_escapado = replace_char 39 [39, 39] v1
                       in [39] @ valor_escapado @ [39])"

definition inferir_tipo_coluna :: "pylib \<Rightarrow> pystr \<Rightarrow> pystr" where
  "inferir_tipo_coluna U nome_original =
     (let nome_lower = lower U nome_original
      in if contains (py ''id'') nome_lower \<or> contains (py ''numero'') nome_lower
            \<or> contains (py ''questionario'') nome_lower
         then py ''INTEGER''
         else if contains (py ''idade'') nome_lower \<or> contains (py ''populacao'') nome_lower
            \<or> contains (py ''familias'') nome_lower
         then py ''INTEGER''
         else py ''TEXT'')"

section \<open>The schema generator\<close>

text \<open>
  Both loops of \<^verbatim>\<open>gerar_schema\<close> append to the list \<^verbatim>\<open>colunas\<close>; the list is passed
  along and returned.  The second loop runs over \<^verbatim>\<open>enumerate(perfis_campos)\<close>, so it
  carries the index.
\<close>

fun colunas_comunidades :: "pylib \<Rightarrow> pystr list \<Rightarrow> pystr list \<Rightarrow> pystr list" where
  "colunas_comunidades U colunas [] = colunas"
| "colunas_comunidades U colunas (campo # resto) =
     (let nome_norm = normalizar_nome_coluna U campo;
          tipo = inferir_tipo_coluna U campo
      in if contains (py ''numero'') (lower U campo)
            \<and> contains (py ''questionario'') (lower U campo)
         then colunas_comunidades U
                (colunas @ [py ''    '' @ nome_norm @ py '' '' @ tipo @ py '' PRIMARY KEY'']) resto
         else colunas_comunidades U
                (colunas @ [py ''    '' @ nome_norm @ py '' '' @ tipo]) resto)"

fun colunas_perfis :: "pylib \<Rightarrow> nat \<Rightarrow> pystr list \<Rightarrow> pystr list \<Rightarrow> pystr list" where
  "colunas_perfis U i colunas [] = colunas"
| "colunas_perfis U i colunas (campo # resto) =
     (let nome_norm = normalizar_nome_coluna U campo;
          tipo = inferir_tipo_coluna U campo;
          colunas = (if i = 0
                     then colunas @ [py ''    perfil_id INTEGER PRIMARY KEY AUTOINCREMENT'']
                     else colunas)
      in if contains (py ''id'') (lower U campo)
            \<and> contains (py ''questionario'') (lower U campo)
         then colunas_perfis U (Suc i)
                (colunas @ [py ''    '' @ nome_norm @ py '' '' @ tipo]
                         @ [py ''    FOREIGN KEY ('' @ nome_norm
                              @ py '') REFERENCES comunidades(numero_do_questionario)''])
                resto
         else colunas_perfis U (Suc i)
                (colunas @ [py ''    '' @ nome_norm @ py '' '' @ tipo]) resto)"

definition gerar_schema :: "pylib \<Rightarrow> pystr list \<Rightarrow> pystr list \<Rightarrow> pystr" where
  "gerar_schema U comunidades_campos perfis_campos =
     (let sql = [];
          sql = sql @ [py ''-- Schema gerado automaticamente''];
          sql = sql @ [py ''-- Encoding: UTF-8'' @ [10]];
          sql = sql @ [py ''DROP TABLE IF EXISTS perfis;''];
          sql = sql @ [py ''DROP TABLE IF EXISTS comunidades;'' @ [10]];
          sql = sql @ [py ''CREATE TABLE comunidades (''];
          colunas = colunas_comunidades U [] comunidades_campos;
          sql = sql @ [join (py '','' @ [10]) colunas];
          sql = sql @ [py '');'' @ [10]];
          sql = sql @ [py ''CREATE TABLE perfis (''];
          colunas = colunas_perfis U 0 [] perfis_campos;
          sql = sql @ [join (py '','' @ [10]) colunas];
          sql = sql @ [py '');'' @ [10]]
      in join [10] sql)"

section \<open>The insert generator\<close>

text \<open>
  A record is a Python dictionary from raw field names to values;
  \<^verbatim>\<open>linha.get(c, '')\<close> is the stored value, or the empty string for a missing key.
\<close>

type_synonym registro = "pystr \<rightharpoonup> pystr option"

definition dict_get :: "registro \<Rightarrow> pystr \<Rightarrow> pystr option \<Rightarrow> pystr option" where
  "dict_get linha c d = (case linha c of None \<Rightarrow> d | Some v \<Rightarrow> v)"

fun inserts_comunidades :: "pylib \<Rightarrow> pystr list \<Rightarrow> pystr list \<Rightarrow> registro list \<Rightarrow> pystr list" where
  "inserts_comunidades U comunidades_campos sql [] = sql"
| "inserts_comunidades U comunidades_campos sql (linha # resto) =
     (let colunas_norm = map (normalizar_nome_coluna U) comunidades_campos;
          valores = map (\<lambda>c. escapar_sql_string U (dict_get linha c (Some []))) comunidades_campos;
          sql = sql @ [py ''INSERT INTO comunidades ('' @ join (py '', '') colunas_norm @ py '')''];
          sql = sql @ [py ''VALUES ('' @ join (py '', '') valores @ py '');''];
          sql = sql @ [[]]
      in inserts_comunidades U comunidades_campos sql resto)"

fun inserts_perfis :: "pylib \<Rightarrow> pystr list \<Rightarrow> pystr list \<Rightarrow> registro list \<Rightarrow> pystr list" where
  "inserts_perfis U perfis_campos sql [] = sql"
| "inserts_perfis U perfis_campos sql (linha # resto) =
     (let colunas_norm = map (normalizar_nome_coluna U) perfis_campos;
          valores = map (\<lambda>c. escapar_sql_string U (dict_get linha c (Some []))) perfis_campos;
          sql = sql @ [py ''INSERT INTO perfis ('' @ join (py '', '') colunas_norm @ py '')''];
          sql = sql @ [py ''VALUES ('' @ join (py '', '') valores @ py '');''];
          sql = sql @ [[]]
      in inserts_perfis U perfis_campos sql resto)"

definition gerar_inserts_linhas ::
  "pylib \<Rightarrow> registro list \<Rightarrow> pystr list \<Rightarrow> registro list \<Rightarrow> pystr list \<Rightarrow> pystr list" where
  "gerar_inserts_linhas U comunidades_dados comunidades_campos perfis_dados perfis_campos =
     (let sql = [];
          sql = sql @ [py ''-- Inserts gerados automaticamente''];
          sql = sql @ [py ''-- Encoding: UTF-8'' @ [10]];
          sql = sql @ [py ''-- Inserindo comunidades'' @ [10]];
          sql = inserts_comunidades U comunidades_campos sql comunidades_dados;
          sql = sql @ [[10] @ py ''-- Inserindo perfis'' @ [10]];
          sql = inserts_perfis U perfis_campos sql perfis_dados
      in sql)"

definition gerar_inserts ::
  "pylib \<Rightarrow> registro list \<Rightarrow> pystr list \<Rightarrow> registro list \<Rightarrow> pystr list \<Rightarrow> pystr" where
  "gerar_inserts U comunidades_dados comunidades_campos perfis_dados perfis_campos =
     join [10] (gerar_inserts_linhas U comunidades_dados comunidades_campos
                  perfis_dados perfis_campos)"

section \<open>The library on ASCII, and an instance for Latin-1\<close>

text \<open>
  What every Python interpreter guarantees of the five library functions on ASCII text:
  a string of ASCII characters is its own NFKD form, its lowercase form maps \<^verbatim>\<open>A-Z\<close>
  to \<^verbatim>\<open>a-z\<close> and nothing else, no ASCII character is a combining mark, the ASCII
  digits are \<^verbatim>\<open>0-9\<close>, and the ASCII whitespace is the code points 9 to 13 and 28
  to 32.
\<close>

definition is_ascii :: "nat \<Rightarrow> bool" where
  "is_ascii c = (c < 128)"

definition ascii_lower :: "nat \<Rightarrow> nat" where
  "ascii_lower c = (if 65 \<le> c \<and> c \<le> 90 then c + 32 else c)"

definition ascii_space :: "nat \<Rightarrow> bool" where
  "ascii_space c = ((9 \<le> c \<and> c \<le> 13) \<or> (28 \<le> c \<and> c \<le> 32))"

definition ascii_digit :: "nat \<Rightarrow> bool" where
  "ascii_digit c = (48 \<le> c \<and> c \<le> 57)"

definition unicode_on_ascii :: "pylib \<Rightarrow> bool" where
  "unicode_on_ascii U =
     ((\<forall>s. list_all is_ascii s \<longrightarrow> nfkd U s = s \<and> lower U s = map ascii_lower s) \<and>
      (\<forall>c. is_ascii c \<longrightarrow>
         combining U c = 0 \<and> isdigit U c = ascii_digit c \<and> isspace U c = ascii_space c))"

text \<open>
  An instance of the library for the code points below 256 (ASCII and the Latin-1
  Supplement) and the combining marks their letters decompose to, with the values of
  the Unicode character database: compatibility decompositions, canonical combining
  classes, lowercase mappings, digits and whitespace.  On any other code point the
  instance leaves the text unchanged; it is used only on inputs inside its range.
\<close>

definition latin1_decomposition :: "(nat \<times> nat list) list" where
  "latin1_decomposition =
     [(0xA0, [0x20]), (0xA8, [0x20, 0x308]), (0xAA, [0x61]), (0xAF, [0x20, 0x304]),
      (0xB2, [0x32]), (0xB3, [0x33]), (0xB4, [0x20, 0x301]), (0xB5, [0x3BC]),
      (0xB8, [0x20, 0x327]), (0xB9, [0x31]), (0xBA, [0x6F]),
      (0xBC, [0x31, 0x2044, 0x34]), (0xBD, [0x31, 0x2044, 0x32]), (0xBE, [0x33, 0x2044, 0x34]),
      (0xC0, [0x41, 0x300]), (0xC1, [0x41, 0x301]), (0xC2, [0x41, 0x302]),
      (0xC3, [0x41, 0x303]), (0xC4, [0x41, 0x308]), (0xC5, [0x41, 0x30A]),
      (0xC7, [0x43, 0x327]),
      (0xC8, [0x45, 0x300]), (0xC9, [0x45, 0x301]), (0xCA, [0x45, 0x302]), (0xCB, [0x45, 0x308]),
      (0xCC, [0x49, 0x300]), (0xCD, [0x49, 0x301]), (0xCE, [0x49, 0x302]), (0xCF, [0x49, 0x308]),
      (0xD1, [0x4E, 0x303]),
      (0xD2, [0x4F, 0x300]), (0xD3, [0x4F, 0x301]), (0xD4, [0x4F, 0x302]),
      (0xD5, [0x4F, 0x303]), (0xD6, [0x4F, 0x308]),
      (0xD9, [0x55, 0x300]), (0xDA, [0x55, 0x301]), (0xDB, [0x55, 0x302]), (0xDC, [0x55, 0x308]),
      (0xDD, [0x59, 0x301]),
      (0xE0, [0x61, 0x300]), (0xE1, [0x61, 0x301]), (0xE2, [0x61, 0x302]),
      (0xE3, [0x61, 0x303]), (0xE4, [0x61, 0x308]), (0xE5, [0x61, 0x30A]),
      (0xE7, [0x63, 0x327]),
      (0xE8, [0x65, 0x300]), (0xE9, [0x65, 0x301]), (0xEA, [0x65, 0x302]), (0xEB, [0x65, 0x308]),
      (0xEC, [0x69, 0x300]), (0xED, [0x69, 0x301]), (0xEE, [0x69, 0x302]), (0xEF, [0x69, 0x308]),
      (0xF1, [0x6E, 0x303]),
      (0xF2, [0x6F, 0x300]), (0xF3, [0x6F, 0x301]), (0xF4, [0x6F, 0x302]),
      (0xF5, [0x6F, 0x303]), (0xF6, [0x6F, 0x308]),
      (0xF9, [0x75, 0x300]), (0xFA, [0x75, 0x301]), (0xFB, [0x75, 0x302]), (0xFC, [0x75, 0x308]),
      (0xFD, [0x79, 0x301]), (0xFF, [0x79, 0x308])]"

definition latin1_nfkd_char :: "nat \<Rightarrow> pystr" where
  "latin1_nfkd_char c =
     (if c < 128 then [c]
      else case map_of latin1_decomposition c of None \<Rightarrow> [c] | Some d \<Rightarrow> d)"

definition latin1_combining :: "nat \<Rightarrow> nat" where
  "latin1_combining c =
     (if c = 0x327 then 202
      else if c \<in> set [0x300, 0x301, 0x302, 0x303, 0x304, 0x308, 0x30A] then 230
      else 0)"

definition latin1_lower_char :: "nat \<Rightarrow> nat" where
  "latin1_lower_char c =
     (if (65 \<le> c \<and> c \<le> 90) \<or> (0xC0 \<le> c \<and> c \<le> 0xDE \<and> c \<noteq> 0xD7) then c + 32 else c)"

definition latin1 :: pylib where
  "latin1 =
     \<lparr> nfkd = (\<lambda>s. concat (map latin1_nfkd_char s)),
       combining = latin1_combining,
       lower = map latin1_lower_char,
       isdigit = (\<lambda>c. (48 \<le> c \<and> c \<le> 57) \<or> c \<in> set [0xB2, 0xB3, 0xB9]),
       isspace = (\<lambda>c. (9 \<le> c \<and> c \<le> 13) \<or> (28 \<le> c \<and> c \<le> 32) \<or> c \<in> set [0x85, 0xA0]) \<rparr>"

section \<open>Predicates of the specification\<close>

text \<open>
  A character of \<^verbatim>\<open>[a-z0-9_]\<close>; a string in which no two underscores are adjacent;
  and the shape of an identifier: only such characters, no two adjacent underscores,
  no underscore at either end and no digit in front.
\<close>

definition ident_char :: "nat \<Rightarrow> bool" where
  "ident_char c = ((97 \<le> c \<and> c \<le> 122) \<or> (48 \<le> c \<and> c \<le> 57) \<or> c = 95)"

fun no_double_underscore :: "pystr \<Rightarrow> bool" where
  "no_double_underscore (a # b # r) = (\<not> (a = 95 \<and> b = 95) \<and> no_double_underscore (b # r))"
| "no_double_underscore r = True"

definition ident_ok :: "pystr \<Rightarrow> bool" where
  "ident_ok s = (list_all ident_char s \<and> no_double_underscore s \<and>
     (s \<noteq> [] \<longrightarrow> hd s \<noteq> 95 \<and> last s \<noteq> 95 \<and> \<not> ascii_digit (hd s)))"

text \<open>
  A string in which every single quote (code point 39) is one of a pair of adjacent
  quotes, read from the left; and an SQL literal as the escaper emits it: the bare
  word \<^verbatim>\<open>NULL\<close>, or a string between two single quotes whose content has every
  quote doubled.
\<close>

fun quotes_doubled :: "pystr \<Rightarrow> bool" where
  "quotes_doubled [] = True"
| "quotes_doubled [a] = (a \<noteq> 39)"
| "quotes_doubled (a # b # r) = (if a = 39 then b = 39 \<and> quotes_doubled r else quotes_doubled (b # r))"

definition sql_literal_ok :: "pystr \<Rightarrow> bool" where
  "sql_literal_ok s = (s = py ''NULL'' \<or>
     (2 \<le> length s \<and> hd s = 39 \<and> last s = 39 \<and> quotes_doubled (butlast (tl s))))"

text \<open>
  The insert generator in the words of the specification: the column list of a table
  is the normalized field names in field order, the value list of a record is the
  escaped values looked up by raw field name, with the empty string for a missing
  field, and a record gives one statement (followed by an empty line).
\<close>

definition colunas_insert :: "pylib \<Rightarrow> pystr list \<Rightarrow> pystr list" where
  "colunas_insert U campos = map (normalizar_nome_coluna U) campos"

definition valores_insert :: "pylib \<Rightarrow> pystr list \<Rightarrow> registro \<Rightarrow> pystr list" where
  "valores_insert U campos linha =
     map (\<lambda>c. escapar_sql_string U (case linha c of None \<Rightarrow> Some [] | Some v \<Rightarrow> v)) campos"

definition insert_statement :: "pylib \<Rightarrow> pystr \<Rightarrow> pystr list \<Rightarrow> registro \<Rightarrow> pystr list" where
  "insert_statement U tabela campos linha =
     [py ''INSERT INTO '' @ tabela @ py '' ('' @ join (py '', '') (colunas_insert U campos) @ py '')'',
      py ''VALUES ('' @ join (py '', '') (valores_insert U campos linha) @ py '');'',
      []]"

text \<open>Records of the examples: a community, a profile whose name is \<^verbatim>\<open>None\<close> and
  whose age is missing, and a profile of a file with a column \<^verbatim>\<open>perfil_id\<close>.\<close>

definition linha_vila_nova :: registro where
  "linha_vila_nova =
     [py ''Numero do Questionario'' \<mapsto> Some (py ''7''), py ''Nome'' \<mapsto> Some (py ''Vila Nova'')]"

definition linha_perfil :: registro where
  "linha_perfil = [py ''ID Questionario'' \<mapsto> Some (py ''7''), py ''Nome'' \<mapsto> None]"

definition linha_perfil_id :: registro where
  "linha_perfil_id = [py ''perfil_id'' \<mapsto> Some (py ''1'')]"

text \<open>
  The schema generator in the words of the specification: a field of comunidades gives
  one column line, marked \<^verbatim>\<open>PRIMARY KEY\<close> when its lowercased raw name contains
  \<^verbatim>\<open>numero\<close> and \<^verbatim>\<open>questionario\<close>; a field of perfis gives its column line,
  followed by a \<^verbatim>\<open>FOREIGN KEY\<close> clause when its lowercased raw name contains
  \<^verbatim>\<open>id\<close> and \<^verbatim>\<open>questionario\<close>.
\<close>

definition linha_comunidades :: "pylib \<Rightarrow> pystr \<Rightarrow> pystr" where
  "linha_comunidades U campo =
     py ''    '' @ normalizar_nome_coluna U campo @ py '' '' @ inferir_tipo_coluna U campo
     @ (if contains (py ''numero'') (lower U campo) \<and> contains (py ''questionario'') (lower U campo)
        then py '' PRIMARY KEY'' else [])"

definition linhas_perfis :: "pylib \<Rightarrow> pystr \<Rightarrow> pystr list" where
  "linhas_perfis U campo =
     [py ''    '' @ normalizar_nome_coluna U campo @ py '' '' @ inferir_tipo_coluna U campo]
     @ (if contains (py ''id'') (lower U campo) \<and> contains (py ''questionario'') (lower U campo)
        then [py ''    FOREIGN KEY ('' @ normalizar_nome_coluna U campo
                @ py '') REFERENCES comunidades(numero_do_questionario)'']
        else [])"

text \<open>
  The header \<^verbatim>\<open>N\<close>, \<^verbatim>\<open>u\<close> with acute (U+00FA), \<^verbatim>\<open>mero do Question\<close>, \<^verbatim>\<open>a\<close> with
  acute (U+00E1), \<^verbatim>\<open>rio\<close>.
\<close>

definition cabecalho_acentuado :: pystr where
  "cabecalho_acentuado = [78, 0xFA] @ py ''mero do Question'' @ [0xE1] @ py ''rio''"

section \<open>Lemmas on the string operations\<close>

text \<open>The definitions that evaluate the model on a concrete input.\<close>

lemmas eval_defs =
  py_def latin1_def latin1_nfkd_char_def latin1_decomposition_def latin1_combining_def
  latin1_lower_char_def is_alnum_def is_ascii_def strip_chars_def replace_char_def
  normalizar_nome_coluna_def escapar_sql_string_def inferir_tipo_coluna_def
  gerar_schema_def gerar_inserts_def gerar_inserts_linhas_def dict_get_def Let_def
  str_find_def


lemma py_q: "py ''q_'' = [113, 95]"
  by (simp add: py_def)

lemma alnum_not_underscore: "is_alnum c \<Longrightarrow> c \<noteq> 95"
  by (auto simp: is_alnum_def)

lemma re_sub_chars: "list_all (\<lambda>c. is_alnum c \<or> c = 95) (re_sub_nonalnum s)"
  by (induction s rule: re_sub_nonalnum.induct) auto

lemma re_sub_hd_alnum: "s \<noteq> [] \<Longrightarrow> is_alnum (hd s) \<Longrightarrow> hd (re_sub_nonalnum s) = hd s \<and> re_sub_nonalnum s \<noteq> []"
  by (cases s) auto

lemma ndu_Cons: "no_double_underscore (a # r) = ((r \<noteq> [] \<longrightarrow> \<not> (a = 95 \<and> hd r = 95)) \<and> no_double_underscore r)"
  by (cases r) auto

lemma re_sub_after_run: "re_sub_nonalnum (dropWhile (\<lambda>x. \<not> is_alnum x) cs) \<noteq> [] \<Longrightarrow>
   hd (re_sub_nonalnum (dropWhile (\<lambda>x. \<not> is_alnum x) cs)) \<noteq> 95"
proof -
  assume ne: "re_sub_nonalnum (dropWhile (\<lambda>x. \<not> is_alnum x) cs) \<noteq> []"
  let ?d = "dropWhile (\<lambda>x. \<not> is_alnum x) cs"
  from ne have d: "?d \<noteq> []" by (metis re_sub_nonalnum.simps(1))
  then have "is_alnum (hd ?d)" using hd_dropWhile [of "\<lambda>x. \<not> is_alnum x" cs] by simp
  with d show ?thesis using re_sub_hd_alnum [of ?d] alnum_not_underscore by metis
qed

lemma re_sub_ndu: "no_double_underscore (re_sub_nonalnum s)"
proof (induction s rule: re_sub_nonalnum.induct)
  case 1
  then show ?case by simp
next
  case (2 c cs)
  show ?case
  proof (cases "is_alnum c")
    case True
    with 2 show ?thesis by (simp add: ndu_Cons alnum_not_underscore)
  next
    case False
    with 2 show ?thesis using re_sub_after_run [of cs] by (simp add: ndu_Cons)
  qed
qed

lemma ndu_append: "no_double_underscore (xs @ ys) \<Longrightarrow> no_double_underscore xs \<and> no_double_underscore ys"
  by (induction xs rule: no_double_underscore.induct) (auto simp: ndu_Cons)

lemma strip_decomp: "\<exists>a b. s = a @ strip_chars P s @ b"
proof -
  let ?d = "dropWhile P s"
  have 1: "s = takeWhile P s @ ?d" by simp
  have "rev (takeWhile P (rev ?d) @ dropWhile P (rev ?d)) = rev (rev ?d)"
    by (simp only: takeWhile_dropWhile_id)
  then have "rev (dropWhile P (rev ?d)) @ rev (takeWhile P (rev ?d)) = ?d"
    by (simp only: rev_append rev_rev_ident)
  then have 2: "?d = strip_chars P s @ rev (takeWhile P (rev ?d))"
    by (simp only: strip_chars_def)
  from 1 2 show ?thesis by metis
qed

lemma strip_ndu: "no_double_underscore s \<Longrightarrow> no_double_underscore (strip_chars P s)"
  using strip_decomp [of s P] ndu_append by metis

lemma strip_set: "set (strip_chars P s) \<subseteq> set s"
  using strip_decomp [of s P] by (metis Un_iff set_append subsetI)

lemma strip_last: "strip_chars P s \<noteq> [] \<Longrightarrow> \<not> P (last (strip_chars P s))"
  unfolding strip_chars_def
  using hd_dropWhile [of P "rev (dropWhile P s)"] by (simp add: last_rev)

lemma dropWhile_last: "dropWhile P xs \<noteq> [] \<Longrightarrow> last (dropWhile P xs) = last xs"
  by (induction xs) auto

lemma strip_hd: "strip_chars P s \<noteq> [] \<Longrightarrow> \<not> P (hd (strip_chars P s))"
proof -
  assume ne: "strip_chars P s \<noteq> []"
  let ?d = "dropWhile P s"
  from ne have r: "dropWhile P (rev ?d) \<noteq> []" by (simp add: strip_chars_def)
  then have d: "?d \<noteq> []" by (metis dropWhile.simps(1) rev_is_Nil_conv)
  have "hd (strip_chars P s) = last (dropWhile P (rev ?d))"
    using r by (simp add: strip_chars_def hd_rev)
  also have "\<dots> = last (rev ?d)" using r by (rule dropWhile_last)
  also have "\<dots> = hd ?d" using d by (simp add: last_rev)
  finally show ?thesis using hd_dropWhile [OF d] by simp
qed

lemma dropWhile_rev_id: "xs \<noteq> [] \<Longrightarrow> \<not> P (last xs) \<Longrightarrow> dropWhile P (rev xs) = rev xs"
  by (induction xs rule: rev_induct) auto

lemma strip_id: "(s \<noteq> [] \<Longrightarrow> \<not> P (hd s) \<and> \<not> P (last s)) \<Longrightarrow> strip_chars P s = s"
proof (cases s)
  case Nil
  then show ?thesis by (simp add: strip_chars_def)
next
  case (Cons a r)
  assume "s \<noteq> [] \<Longrightarrow> \<not> P (hd s) \<and> \<not> P (last s)"
  with Cons have h: "\<not> P a" and l: "\<not> P (last s)" by auto
  from h Cons have 1: "dropWhile P s = s" by simp
  have "s \<noteq> []" using Cons by simp
  then have "dropWhile P (rev s) = rev s" using l by (rule dropWhile_rev_id)
  with 1 show ?thesis by (simp add: strip_chars_def)
qed

lemma re_sub_id: "list_all (\<lambda>c. is_alnum c \<or> c = 95) s \<Longrightarrow> no_double_underscore s \<Longrightarrow> re_sub_nonalnum s = s"
proof (induction s rule: re_sub_nonalnum.induct)
  case 1
  then show ?case by simp
next
  case (2 c cs)
  show ?case
  proof (cases "is_alnum c")
    case True
    with 2 show ?thesis by (simp add: ndu_Cons)
  next
    case False
    with 2 have c: "c = 95" by simp
    have "dropWhile (\<lambda>x. \<not> is_alnum x) cs = cs"
    proof (cases cs)
      case Nil then show ?thesis by simp
    next
      case (Cons x xs)
      with 2(3,4) c have "is_alnum x" by auto
      with Cons show ?thesis by simp
    qed
    with 2 False c show ?thesis by (simp add: ndu_Cons)
  qed
qed

section \<open>Lemmas on the normalizer\<close>


lemma filter_alnum_dropWhile: "filter is_alnum (dropWhile (\<lambda>x. \<not> is_alnum x) cs) = filter is_alnum cs"
  by (induction cs) auto

lemma re_sub_filter: "filter is_alnum (re_sub_nonalnum s) = filter is_alnum s"
proof -
  have "\<not> is_alnum 95" by (simp add: is_alnum_def)
  then show ?thesis
    by (induction s rule: re_sub_nonalnum.induct) (auto simp: filter_alnum_dropWhile)
qed

lemma strip_Nil_iff: "strip_chars P s = [] \<longleftrightarrow> (\<forall>x\<in>set s. P x)"
proof
  assume e: "strip_chars P s = []"
  show "\<forall>x\<in>set s. P x"
  proof (rule ccontr)
    assume "\<not> (\<forall>x\<in>set s. P x)"
    then have d: "dropWhile P s \<noteq> []" by simp
    then have "\<not> P (hd (dropWhile P s))" by (rule hd_dropWhile)
    moreover have "hd (dropWhile P s) \<in> set (rev (dropWhile P s))" using d by simp
    ultimately have "dropWhile P (rev (dropWhile P s)) \<noteq> []"
      by (metis dropWhile_eq_Nil_conv)
    with e show False by (simp add: strip_chars_def)
  qed
next
  assume "\<forall>x\<in>set s. P x"
  then have "dropWhile P s = []" by simp
  then show "strip_chars P s = []" by (simp only: strip_chars_def rev.simps dropWhile.simps)
qed

lemma nucleo_Nil_iff:
  "strip_chars (\<lambda>c. c = 95) (re_sub_nonalnum s) = [] \<longleftrightarrow> \<not> (\<exists>c\<in>set s. is_alnum c)"
proof -
  have "(\<forall>x\<in>set (re_sub_nonalnum s). x = 95) \<longleftrightarrow> filter is_alnum (re_sub_nonalnum s) = []"
    using re_sub_chars [of s] alnum_not_underscore
    by (auto simp: list_all_iff filter_empty_conv)
  also have "\<dots> \<longleftrightarrow> \<not> (\<exists>c\<in>set s. is_alnum c)"
    by (simp add: re_sub_filter filter_empty_conv)
  finally show ?thesis by (simp add: strip_Nil_iff)
qed

lemma nucleo_chars: "list_all (\<lambda>c. is_alnum c \<or> c = 95) (nucleo U n)"
  unfolding nucleo_def
  using strip_set [of "\<lambda>c. c = 95" "re_sub_nonalnum (filter (\<lambda>c. combining U c = 0) (nfkd U n))"]
    re_sub_chars [of "filter (\<lambda>c. combining U c = 0) (nfkd U n)"]
  by (auto simp: list_all_iff)

lemma nucleo_ndu: "no_double_underscore (nucleo U n)"
  unfolding nucleo_def by (rule strip_ndu) (rule re_sub_ndu)

lemma nucleo_ends: "nucleo U n \<noteq> [] \<Longrightarrow> hd (nucleo U n) \<noteq> 95 \<and> last (nucleo U n) \<noteq> 95"
  unfolding nucleo_def
  using strip_hd [of "\<lambda>c. c = 95"] strip_last [of "\<lambda>c. c = 95"] by blast

lemma alnum_ascii: "is_alnum c \<or> c = 95 \<Longrightarrow> is_ascii c"
  by (auto simp: is_alnum_def is_ascii_def)

lemma nucleo_ascii: "list_all is_ascii (nucleo U n)"
  using nucleo_chars [of U n] alnum_ascii by (auto simp: list_all_iff)

lemma normalizar_eq:
  assumes U: "unicode_on_ascii U"
  shows "normalizar_nome_coluna U n =
           map ascii_lower (if nucleo U n \<noteq> [] \<and> ascii_digit (hd (nucleo U n))
                            then py ''q_'' @ nucleo U n else nucleo U n)"
proof -
  let ?t = "nucleo U n"
  let ?p = "if ?t \<noteq> [] \<and> isdigit U (hd ?t) then py ''q_'' @ ?t else ?t"
  have d: "?t \<noteq> [] \<Longrightarrow> isdigit U (hd ?t) = ascii_digit (hd ?t)"
    using U nucleo_ascii [of U n] by (cases ?t) (auto simp: unicode_on_ascii_def)
  have "list_all is_ascii ?p"
    using nucleo_ascii [of U n] by (simp add: py_q is_ascii_def)
  then have "lower U ?p = map ascii_lower ?p"
    using U by (simp add: unicode_on_ascii_def)
  moreover have "normalizar_nome_coluna U n = lower U ?p"
    by (simp add: normalizar_nome_coluna_def nucleo_def Let_def)
  ultimately show ?thesis using d by auto
qed

lemma ascii_lower_ident: "is_alnum c \<or> c = 95 \<Longrightarrow> ident_char (ascii_lower c)"
  by (auto simp: is_alnum_def ident_char_def ascii_lower_def)

lemma ascii_lower_underscore: "(ascii_lower c = 95) = (c = 95)"
  by (auto simp: ascii_lower_def)

lemma ascii_lower_digit: "ascii_digit (ascii_lower c) = ascii_digit c"
  by (auto simp: ascii_lower_def ascii_digit_def)

lemma ndu_map_lower: "no_double_underscore (map ascii_lower s) = no_double_underscore s"
  by (induction s rule: no_double_underscore.induct) (auto simp: ascii_lower_underscore)

lemma normalizar_ident_ok:
  assumes U: "unicode_on_ascii U"
  shows "ident_ok (normalizar_nome_coluna U n)"
proof -
  let ?t = "nucleo U n"
  have c: "list_all (\<lambda>c. is_alnum c \<or> c = 95) ?t" by (rule nucleo_chars)
  have nd: "no_double_underscore ?t" by (rule nucleo_ndu)
  show ?thesis
  proof (cases "?t = []")
    case True
    then show ?thesis by (simp add: normalizar_eq [OF U] ident_ok_def)
  next
    case False
    then have e: "hd ?t \<noteq> 95" "last ?t \<noteq> 95" using nucleo_ends [of U n] by auto
    show ?thesis
    proof (cases "ascii_digit (hd ?t)")
      case True
      have "list_all ident_char (map ascii_lower ?t)"
        using c ascii_lower_ident by (auto simp: list_all_iff)
      moreover have "no_double_underscore (113 # 95 # map ascii_lower ?t)"
        using nd e False by (simp add: ndu_Cons ndu_map_lower hd_map ascii_lower_underscore)
      ultimately show ?thesis using True False e
        by (simp add: normalizar_eq [OF U] ident_ok_def py_q ascii_lower_def ident_char_def
            ascii_digit_def last_map ascii_lower_underscore)
    next
      case d: False
      have "list_all ident_char (map ascii_lower ?t)"
        using c ascii_lower_ident by (auto simp: list_all_iff)
      then show ?thesis using d False e nd
        by (simp add: normalizar_eq [OF U] ident_ok_def hd_map last_map ascii_lower_underscore
            ascii_lower_digit ndu_map_lower)
    qed
  qed
qed

lemma ident_char_fix: "ident_char c \<Longrightarrow> ascii_lower c = c \<and> is_ascii c \<and> (is_alnum c \<or> c = 95)"
  by (auto simp: ident_char_def ascii_lower_def is_ascii_def is_alnum_def)

lemma normalizar_fix:
  assumes U: "unicode_on_ascii U" and ok: "ident_ok s"
  shows "normalizar_nome_coluna U s = s"
proof -
  from ok have ch: "list_all ident_char s" by (simp add: ident_ok_def)
  then have asc: "list_all is_ascii s" using ident_char_fix by (auto simp: list_all_iff)
  then have n: "nfkd U s = s" using U by (simp add: unicode_on_ascii_def)
  have "\<forall>c\<in>set s. combining U c = 0"
    using asc U by (auto simp: list_all_iff unicode_on_ascii_def)
  then have f: "filter (\<lambda>c. combining U c = 0) s = s" by (simp add: filter_id_conv)
  have "list_all (\<lambda>c. is_alnum c \<or> c = 95) s"
    using ch ident_char_fix by (auto simp: list_all_iff)
  then have r: "re_sub_nonalnum s = s" using ok by (simp add: re_sub_id ident_ok_def)
  have st: "strip_chars (\<lambda>c. c = 95) s = s"
    by (rule strip_id) (use ok in \<open>simp add: ident_ok_def\<close>)
  have nu: "nucleo U s = s" by (simp add: nucleo_def n f r st)
  have "map ascii_lower s = s"
    using ch ident_char_fix by (auto simp: list_all_iff map_idI)
  then show ?thesis using ok by (auto simp: normalizar_eq [OF U] nu ident_ok_def)
qed

lemma latin1_on_ascii: "unicode_on_ascii latin1"
proof -
  have 1: "list_all is_ascii s \<Longrightarrow> concat (map latin1_nfkd_char s) = s" for s
    by (induction s) (auto simp: latin1_nfkd_char_def is_ascii_def)
  have 2: "list_all is_ascii s \<Longrightarrow> map latin1_lower_char s = map ascii_lower s" for s
    by (induction s) (auto simp: latin1_lower_char_def ascii_lower_def is_ascii_def)
  show ?thesis
    unfolding unicode_on_ascii_def latin1_def
    using 1 2 by (auto simp: is_ascii_def ascii_digit_def ascii_space_def latin1_combining_def)
qed


lemma ex_norm_q: "normalizar_nome_coluna latin1 (py ''1. Nome da Pessoa?'') = py ''q_1_nome_da_pessoa''"
  by (simp add: eval_defs)

lemma nucleo_norm_Nil:
  assumes U: "unicode_on_ascii U"
  shows "normalizar_nome_coluna U n = [] \<longleftrightarrow> nucleo U n = []"
  by (simp add: normalizar_eq [OF U] py_q)

section \<open>The claims on the normalizer\<close>

text \<open>
  Claim C4.  Where the library behaves on ASCII as every interpreter does, the
  normalized name of any raw field name consists of lowercase ASCII letters, digits
  and underscores only and is left unchanged by \<^verbatim>\<open>lower()\<close>; when it is not empty it
  neither starts nor ends with an underscore and does not start with a digit; the
  prefix \<^verbatim>\<open>q_\<close> is put in front exactly of a name that would start with a digit; and
  the result is empty exactly when the name without its combining marks has no
  character of \<^verbatim>\<open>[a-zA-Z0-9]\<close>.
\<close>

theorem normalizar_output_shape:
  assumes U: "unicode_on_ascii U"
  shows "list_all ident_char (normalizar_nome_coluna U n) \<and>
         lower U (normalizar_nome_coluna U n) = normalizar_nome_coluna U n \<and>
         (normalizar_nome_coluna U n \<noteq> [] \<longrightarrow>
            hd (normalizar_nome_coluna U n) \<noteq> 95 \<and>
            last (normalizar_nome_coluna U n) \<noteq> 95 \<and>
            \<not> ascii_digit (hd (normalizar_nome_coluna U n))) \<and>
         (nucleo U n \<noteq> [] \<and> ascii_digit (hd (nucleo U n)) \<longrightarrow>
            normalizar_nome_coluna U n = py ''q_'' @ map ascii_lower (nucleo U n)) \<and>
         (normalizar_nome_coluna U n = [] \<longleftrightarrow>
            \<not> list_ex is_alnum (filter (\<lambda>c. combining U c = 0) (nfkd U n)))"
proof -
  let ?N = "normalizar_nome_coluna U n"
  have ok: "ident_ok ?N" by (rule normalizar_ident_ok [OF U])
  then have ch: "list_all ident_char ?N" by (simp add: ident_ok_def)
  then have "list_all is_ascii ?N" using ident_char_fix by (auto simp: list_all_iff)
  then have "lower U ?N = map ascii_lower ?N" using U by (simp add: unicode_on_ascii_def)
  also have "\<dots> = ?N" using ch ident_char_fix by (auto simp: list_all_iff map_idI)
  finally have lo: "lower U ?N = ?N" .
  have q: "nucleo U n \<noteq> [] \<and> ascii_digit (hd (nucleo U n)) \<longrightarrow>
            ?N = py ''q_'' @ map ascii_lower (nucleo U n)"
    by (simp add: normalizar_eq [OF U] py_q ascii_lower_def)
  have "?N = [] \<longleftrightarrow> nucleo U n = []" by (rule nucleo_norm_Nil [OF U])
  also have "\<dots> \<longleftrightarrow> \<not> list_ex is_alnum (filter (\<lambda>c. combining U c = 0) (nfkd U n))"
    unfolding nucleo_def nucleo_Nil_iff by (simp add: list_ex_iff)
  finally have e: "?N = [] \<longleftrightarrow> \<not> list_ex is_alnum (filter (\<lambda>c. combining U c = 0) (nfkd U n))" .
  from ok ch lo q e show ?thesis by (simp add: ident_ok_def)
qed

text \<open>The shape at the header \<^verbatim>\<open>1. Nome da Pessoa?\<close>, which starts with a digit.\<close>

theorem normalizar_output_shape_witness:
  "unicode_on_ascii latin1 \<and>
   normalizar_nome_coluna latin1 (py ''1. Nome da Pessoa?'') = py ''q_1_nome_da_pessoa'' \<and>
   list_all ident_char (normalizar_nome_coluna latin1 (py ''1. Nome da Pessoa?'')) \<and>
   hd (normalizar_nome_coluna latin1 (py ''1. Nome da Pessoa?'')) = 113 \<and>
   last (normalizar_nome_coluna latin1 (py ''1. Nome da Pessoa?'')) = 97"
proof -
  have "list_all ident_char (normalizar_nome_coluna latin1 (py ''1. Nome da Pessoa?''))"
    using normalizar_output_shape [OF latin1_on_ascii, of "py ''1. Nome da Pessoa?''"] by blast
  moreover have "hd (py ''q_1_nome_da_pessoa'') = 113" "last (py ''q_1_nome_da_pessoa'') = 97"
    by (simp_all add: py_def)
  ultimately show ?thesis using latin1_on_ascii ex_norm_q by simp
qed

text \<open>
  Claim C7.  Normalizing a normalized name returns it unchanged:
  \<^verbatim>\<open>normalize(normalize(n)) == normalize(n)\<close> for every raw field name \<^verbatim>\<open>n\<close>.
\<close>

theorem normalizar_idempotent:
  assumes U: "unicode_on_ascii U"
  shows "normalizar_nome_coluna U (normalizar_nome_coluna U n) = normalizar_nome_coluna U n"
  using U normalizar_ident_ok [OF U] by (rule normalizar_fix)

text \<open>Idempotence at the same header.\<close>

theorem normalizar_idempotent_witness:
  "unicode_on_ascii latin1 \<and>
   normalizar_nome_coluna latin1 (py ''1. Nome da Pessoa?'') = py ''q_1_nome_da_pessoa'' \<and>
   normalizar_nome_coluna latin1 (py ''q_1_nome_da_pessoa'') = py ''q_1_nome_da_pessoa''"
  using normalizar_idempotent [OF latin1_on_ascii, of "py ''1. Nome da Pessoa?''"]
    latin1_on_ascii ex_norm_q by simp

section \<open>Lemmas on the escaper and the type inferrer\<close>

lemma quotes_doubled_other: "a \<noteq> 39 \<Longrightarrow> quotes_doubled (a # r) = quotes_doubled r"
  by (cases r) auto

lemma replace_quotes_doubled: "quotes_doubled (replace_char 39 [39, 39] s)"
  by (induction s) (auto simp: replace_char_def quotes_doubled_other)

lemma quoted_literal_ok: "quotes_doubled b \<Longrightarrow> sql_literal_ok ([39] @ b @ [39])"
  by (simp add: sql_literal_ok_def butlast_append)

lemma escapar_eq:
  "escapar_sql_string U (Some v) =
     (if v = [] \<or> strip_chars (isspace U) v = []
         \<or> lower U (strip_chars (isspace U) v) = py ''sem resposta*''
      then py ''NULL''
      else [39] @ replace_char 39 [39, 39] (strip_chars (isspace U) v) @ [39])"
  by (simp add: escapar_sql_string_def Let_def)

lemma escapar_literal_ok: "sql_literal_ok (escapar_sql_string U x)"
proof (cases x)
  case None
  then show ?thesis by (simp add: escapar_sql_string_def sql_literal_ok_def)
next
  case (Some v)
  show ?thesis
    unfolding Some escapar_eq
    using quoted_literal_ok [OF replace_quotes_doubled]
    by (simp add: sql_literal_ok_def)
qed

lemma strip_cong: "(\<And>x. x \<in> set s \<Longrightarrow> P x = Q x) \<Longrightarrow> strip_chars P s = strip_chars Q s"
proof -
  assume a: "\<And>x. x \<in> set s \<Longrightarrow> P x = Q x"
  then have 1: "dropWhile P s = dropWhile Q s" by (auto intro: dropWhile_cong)
  have "\<And>x. x \<in> set (rev (dropWhile Q s)) \<Longrightarrow> P x = Q x"
    using a set_dropWhileD by fastforce
  then have "dropWhile P (rev (dropWhile Q s)) = dropWhile Q (rev (dropWhile Q s))"
    by (auto intro: dropWhile_cong)
  with 1 show ?thesis by (simp add: strip_chars_def)
qed

lemma strip_ascii:
  assumes U: "unicode_on_ascii U" and v: "list_all is_ascii v"
  shows "strip_chars (isspace U) v = strip_chars ascii_space v"
    and "list_all is_ascii (strip_chars ascii_space v)"
proof -
  show "strip_chars (isspace U) v = strip_chars ascii_space v"
    using U v by (intro strip_cong) (auto simp: unicode_on_ascii_def list_all_iff)
  show "list_all is_ascii (strip_chars ascii_space v)"
    using v strip_set [of ascii_space v] by (auto simp: list_all_iff)
qed

lemma lower_ascii:
  "unicode_on_ascii U \<Longrightarrow> list_all is_ascii s \<Longrightarrow> lower U s = map ascii_lower s"
  by (simp add: unicode_on_ascii_def)

lemma escapar_on_ascii:
  assumes U: "unicode_on_ascii U" and v: "list_all is_ascii v"
  shows "escapar_sql_string U (Some v) = escapar_sql_string latin1 (Some v)"
  by (simp add: escapar_eq strip_ascii [OF U v] strip_ascii(1) [OF latin1_on_ascii v]
      lower_ascii [OF U] lower_ascii [OF latin1_on_ascii])

lemma inferir_on_ascii:
  assumes U: "unicode_on_ascii U" and n: "list_all is_ascii n"
  shows "inferir_tipo_coluna U n = inferir_tipo_coluna latin1 n"
  by (simp add: inferir_tipo_coluna_def lower_ascii [OF U n] lower_ascii [OF latin1_on_ascii n])

lemma ex_esc_placeholder: "escapar_sql_string latin1 (Some (py ''Sem Resposta*'')) = py ''NULL''"
  by (simp add: eval_defs)

lemma ex_esc_obrien:
  "escapar_sql_string latin1 (Some (py ''O'' @ [39] @ py ''Brien'')) = [39] @ py ''O'' @ [39, 39] @ py ''Brien'' @ [39]"
  by (simp add: eval_defs)

lemma ex_tipo_id: "inferir_tipo_coluna latin1 (py ''ID_Comunidade'') = py ''INTEGER''"
  by (simp add: eval_defs)
lemma ex_tipo_nome: "inferir_tipo_coluna latin1 (py ''Nome'') = py ''TEXT''"
  by (simp add: eval_defs)
lemma ex_tipo_idade: "inferir_tipo_coluna latin1 (py ''Idade_Responsavel'') = py ''INTEGER''"
  by (simp add: eval_defs)

lemma asc1: "list_all is_ascii (py ''Sem Resposta*'')" by (simp add: eval_defs)
lemma asc2: "list_all is_ascii (py ''O'' @ [39] @ py ''Brien'')" by (simp add: eval_defs)

lemma asc3: "list_all is_ascii (py ''ID_Comunidade'')" by (simp add: eval_defs)
lemma asc4: "list_all is_ascii (py ''Nome'')" by (simp add: eval_defs)
lemma asc5: "list_all is_ascii (py ''Idade_Responsavel'')" by (simp add: eval_defs)

lemma tipos_distinct: "py ''INTEGER'' \<noteq> py ''TEXT''"
  by (simp add: py_def)

section \<open>The claims on the escaper and the type inferrer\<close>

text \<open>
  Claim C3.  The escaper returns the bare word \<^verbatim>\<open>NULL\<close> for \<^verbatim>\<open>None\<close>, for the empty
  string, for a string that is empty after trimming and for a string whose trimmed,
  lowercased form is \<^verbatim>\<open>sem resposta*\<close>; for any other value it returns the trimmed
  value with every single quote doubled, between single quotes.  So every result is
  \<^verbatim>\<open>NULL\<close> or a quoted string with no single quote left alone inside.  In
  particular \<^verbatim>\<open>escape("")\<close>, \<^verbatim>\<open>escape(None)\<close> and \<^verbatim>\<open>escape("Sem Resposta*")\<close> are
  \<^verbatim>\<open>NULL\<close>, and \<^verbatim>\<open>escape("O'Brien")\<close> is \<^verbatim>\<open>'O''Brien'\<close>.
\<close>

theorem escapar_contract:
  "escapar_sql_string U None = py ''NULL'' \<and>
   escapar_sql_string U (Some v) =
     (if v = [] \<or> strip_chars (isspace U) v = []
         \<or> lower U (strip_chars (isspace U) v) = py ''sem resposta*''
      then py ''NULL''
      else [39] @ replace_char 39 [39, 39] (strip_chars (isspace U) v) @ [39]) \<and>
   sql_literal_ok (escapar_sql_string U x) \<and>
   escapar_sql_string U (Some []) = py ''NULL'' \<and>
   (unicode_on_ascii U \<longrightarrow>
      escapar_sql_string U (Some (py ''Sem Resposta*'')) = py ''NULL'' \<and>
      escapar_sql_string U (Some (py ''O'' @ [39] @ py ''Brien'')) =
        [39] @ py ''O'' @ [39, 39] @ py ''Brien'' @ [39])"
proof -
  have 1: "escapar_sql_string U None = py ''NULL''" by (simp add: escapar_sql_string_def)
  have 2: "escapar_sql_string U (Some []) = py ''NULL''" by (simp add: escapar_sql_string_def)
  have 3: "unicode_on_ascii U \<longrightarrow>
      escapar_sql_string U (Some (py ''Sem Resposta*'')) = py ''NULL'' \<and>
      escapar_sql_string U (Some (py ''O'' @ [39] @ py ''Brien'')) =
        [39] @ py ''O'' @ [39, 39] @ py ''Brien'' @ [39]"
    using escapar_on_ascii [OF _ asc1] escapar_on_ascii [OF _ asc2]
    by (simp only: ex_esc_placeholder ex_esc_obrien) blast
  from 1 2 3 escapar_eq [of U v] escapar_literal_ok [of U x] show ?thesis by blast
qed

text \<open>The contract at the placeholder and at a value with a quote.\<close>

theorem escapar_contract_witness:
  "unicode_on_ascii latin1 \<and>
   escapar_sql_string latin1 (Some (py ''Sem Resposta*'')) = py ''NULL'' \<and>
   escapar_sql_string latin1 (Some (py ''O'' @ [39] @ py ''Brien'')) =
     [39] @ py ''O'' @ [39, 39] @ py ''Brien'' @ [39] \<and>
   sql_literal_ok (escapar_sql_string latin1 (Some (py ''O'' @ [39] @ py ''Brien'')))"
  using escapar_contract [of latin1 "[]" "Some (py ''O'' @ [39] @ py ''Brien'')"] latin1_on_ascii
  by blast

text \<open>
  Claim C5.  The inferred type of a raw field name is \<^verbatim>\<open>INTEGER\<close> if and only if its
  lowercased form contains one of \<^verbatim>\<open>id\<close>, \<^verbatim>\<open>numero\<close>, \<^verbatim>\<open>idade\<close>, \<^verbatim>\<open>populacao\<close>,
  \<^verbatim>\<open>familias\<close>, \<^verbatim>\<open>questionario\<close>, and \<^verbatim>\<open>TEXT\<close> otherwise; the function reads the
  name only, no field value.  In particular \<^verbatim>\<open>ID_Comunidade\<close> and
  \<^verbatim>\<open>Idade_Responsavel\<close> are \<^verbatim>\<open>INTEGER\<close> and \<^verbatim>\<open>Nome\<close> is \<^verbatim>\<open>TEXT\<close>.
\<close>

theorem inferir_tipo_contract:
  "(inferir_tipo_coluna U n = py ''INTEGER'' \<longleftrightarrow>
      contains (py ''id'') (lower U n) \<or> contains (py ''numero'') (lower U n) \<or>
      contains (py ''idade'') (lower U n) \<or> contains (py ''populacao'') (lower U n) \<or>
      contains (py ''familias'') (lower U n) \<or> contains (py ''questionario'') (lower U n)) \<and>
   (inferir_tipo_coluna U n = py ''TEXT'' \<longleftrightarrow>
      \<not> (contains (py ''id'') (lower U n) \<or> contains (py ''numero'') (lower U n) \<or>
      contains (py ''idade'') (lower U n) \<or> contains (py ''populacao'') (lower U n) \<or>
      contains (py ''familias'') (lower U n) \<or> contains (py ''questionario'') (lower U n))) \<and>
   (unicode_on_ascii U \<longrightarrow>
      inferir_tipo_coluna U (py ''ID_Comunidade'') = py ''INTEGER'' \<and>
      inferir_tipo_coluna U (py ''Nome'') = py ''TEXT'' \<and>
      inferir_tipo_coluna U (py ''Idade_Responsavel'') = py ''INTEGER'')"
proof -
  have 1: "unicode_on_ascii U \<longrightarrow>
      inferir_tipo_coluna U (py ''ID_Comunidade'') = py ''INTEGER'' \<and>
      inferir_tipo_coluna U (py ''Nome'') = py ''TEXT'' \<and>
      inferir_tipo_coluna U (py ''Idade_Responsavel'') = py ''INTEGER''"
    using inferir_on_ascii [OF _ asc3] inferir_on_ascii [OF _ asc4] inferir_on_ascii [OF _ asc5]
    by (simp only: ex_tipo_id ex_tipo_nome ex_tipo_idade) blast
  show ?thesis
    using 1 tipos_distinct tipos_distinct [symmetric]
    by (auto simp: inferir_tipo_coluna_def Let_def)
qed

text \<open>The three names of the specification, on the Latin-1 instance.\<close>

theorem inferir_tipo_contract_witness:
  "unicode_on_ascii latin1 \<and>
   inferir_tipo_coluna latin1 (py ''ID_Comunidade'') = py ''INTEGER'' \<and>
   inferir_tipo_coluna latin1 (py ''Nome'') = py ''TEXT'' \<and>
   inferir_tipo_coluna latin1 (py ''Idade_Responsavel'') = py ''INTEGER''"
  using inferir_tipo_contract [of latin1 "[]"] latin1_on_ascii by blast

section \<open>Lemmas on the insert generator\<close>

lemma inserts_comunidades_eq:
  "inserts_comunidades U campos sql dados =
     sql @ concat (map (insert_statement U (py ''comunidades'') campos) dados)"
  by (induction dados arbitrary: sql)
     (simp_all add: insert_statement_def colunas_insert_def valores_insert_def dict_get_def py_def Let_def)

lemma inserts_perfis_eq:
  "inserts_perfis U campos sql dados =
     sql @ concat (map (insert_statement U (py ''perfis'') campos) dados)"
  by (induction dados arbitrary: sql)
     (simp_all add: insert_statement_def colunas_insert_def valores_insert_def dict_get_def py_def Let_def)

lemma gerar_inserts_linhas_eq:
  "gerar_inserts_linhas U cd cc pd pc =
     [py ''-- Inserts gerados automaticamente'', py ''-- Encoding: UTF-8'' @ [10],
      py ''-- Inserindo comunidades'' @ [10]]
     @ concat (map (insert_statement U (py ''comunidades'') cc) cd)
     @ [[10] @ py ''-- Inserindo perfis'' @ [10]]
     @ concat (map (insert_statement U (py ''perfis'') pc) pd)"
  by (simp add: gerar_inserts_linhas_def inserts_comunidades_eq inserts_perfis_eq Let_def)

lemma startswith_append: "startswith p (p @ s)"
  by (induction p) auto

lemma count_inserts:
  "length (filter (startswith (py ''INSERT INTO '')) (concat (map (insert_statement U t campos) dados)))
     = length dados"
proof -
  have "startswith (py ''INSERT INTO '') (py ''INSERT INTO '' @ x)" for x
    by (rule startswith_append)
  moreover have "\<not> startswith (py ''INSERT INTO '') (py ''VALUES ('' @ x)" for x
    by (simp add: py_def)
  moreover have "\<not> startswith (py ''INSERT INTO '') []" by (simp add: py_def)
  ultimately show ?thesis
    by (induction dados) (simp_all add: insert_statement_def)
qed

lemma escapar_absent: "escapar_sql_string U (Some []) = py ''NULL''"
  by (simp add: escapar_sql_string_def)

section \<open>The claims on the insert generator\<close>

text \<open>
  Claim C6.  For every pair of datasets the insert generator emits, after three
  comment lines, one \<^verbatim>\<open>INSERT INTO\<close> statement per record in record order, all of
  comunidades before all of perfis (a comment line between them); the column list is
  the normalized field names in field order and the value list the escaped values
  looked up by raw field name, \<^verbatim>\<open>NULL\<close> for a field the record does not have.  One
  statement per row, nothing around them: no batching, no transaction.
\<close>

theorem gerar_inserts_contract:
  "gerar_inserts U cd cc pd pc = join [10] (gerar_inserts_linhas U cd cc pd pc) \<and>
   gerar_inserts_linhas U cd cc pd pc =
     [py ''-- Inserts gerados automaticamente'', py ''-- Encoding: UTF-8'' @ [10],
      py ''-- Inserindo comunidades'' @ [10]]
     @ concat (map (insert_statement U (py ''comunidades'') cc) cd)
     @ [[10] @ py ''-- Inserindo perfis'' @ [10]]
     @ concat (map (insert_statement U (py ''perfis'') pc) pd) \<and>
   length (filter (startswith (py ''INSERT INTO '')) (gerar_inserts_linhas U cd cc pd pc))
     = length cd + length pd \<and>
   (i < length campos \<longrightarrow>
      colunas_insert U campos ! i = normalizar_nome_coluna U (campos ! i) \<and>
      valores_insert U campos linha ! i =
        (case linha (campos ! i) of
           None \<Rightarrow> py ''NULL''
         | Some v \<Rightarrow> escapar_sql_string U v))"
proof -
  have 1: "\<not> startswith (py ''INSERT INTO '') (py ''-- Inserts gerados automaticamente'')"
    "\<not> startswith (py ''INSERT INTO '') (py ''-- Encoding: UTF-8'' @ [10])"
    "\<not> startswith (py ''INSERT INTO '') (py ''-- Inserindo comunidades'' @ [10])"
    "\<not> startswith (py ''INSERT INTO '') ([10] @ py ''-- Inserindo perfis'' @ [10])"
    by (simp_all add: py_def)
  have c: "length (filter (startswith (py ''INSERT INTO '')) (gerar_inserts_linhas U cd cc pd pc))
     = length cd + length pd"
    unfolding gerar_inserts_linhas_eq using 1 by (simp add: count_inserts)
  have v: "i < length campos \<longrightarrow>
      colunas_insert U campos ! i = normalizar_nome_coluna U (campos ! i) \<and>
      valores_insert U campos linha ! i =
        (case linha (campos ! i) of None \<Rightarrow> py ''NULL'' | Some v \<Rightarrow> escapar_sql_string U v)"
    by (simp add: colunas_insert_def valores_insert_def escapar_absent split: option.split)
  from c v gerar_inserts_linhas_eq [of U cd cc pd pc] show ?thesis
    by (simp add: gerar_inserts_def)
qed

lemma ex_inserts:
  "gerar_inserts_linhas latin1 [linha_vila_nova] [py ''Numero do Questionario'', py ''Nome'']
     [linha_perfil] [py ''ID Questionario'', py ''Nome'', py ''Idade''] =
   [py ''-- Inserts gerados automaticamente'', py ''-- Encoding: UTF-8'' @ [10],
    py ''-- Inserindo comunidades'' @ [10],
    py ''INSERT INTO comunidades (numero_do_questionario, nome)'',
    py ''VALUES ('7', 'Vila Nova');'', [],
    [10] @ py ''-- Inserindo perfis'' @ [10],
    py ''INSERT INTO perfis (id_questionario, nome, idade)'',
    py ''VALUES ('7', NULL, NULL);'', []]"
  by (simp add: eval_defs linha_vila_nova_def linha_perfil_def)

text \<open>One community and one profile with a missing field.\<close>

theorem gerar_inserts_contract_witness:
  "gerar_inserts_linhas latin1 [linha_vila_nova] [py ''Numero do Questionario'', py ''Nome'']
     [linha_perfil] [py ''ID Questionario'', py ''Nome'', py ''Idade''] =
   [py ''-- Inserts gerados automaticamente'', py ''-- Encoding: UTF-8'' @ [10],
    py ''-- Inserindo comunidades'' @ [10],
    py ''INSERT INTO comunidades (numero_do_questionario, nome)'',
    py ''VALUES ('7', 'Vila Nova');'', [],
    [10] @ py ''-- Inserindo perfis'' @ [10],
    py ''INSERT INTO perfis (id_questionario, nome, idade)'',
    py ''VALUES ('7', NULL, NULL);'', []] \<and>
   length (filter (startswith (py ''INSERT INTO ''))
     (gerar_inserts_linhas latin1 [linha_vila_nova] [py ''Numero do Questionario'', py ''Nome'']
        [linha_perfil] [py ''ID Questionario'', py ''Nome'', py ''Idade''])) = 2 \<and>
   valores_insert latin1 [py ''ID Questionario'', py ''Nome'', py ''Idade''] linha_perfil ! 2
     = py ''NULL''"
proof -
  let ?cc = "[py ''Numero do Questionario'', py ''Nome'']"
  let ?pc = "[py ''ID Questionario'', py ''Nome'', py ''Idade'']"
  note g = gerar_inserts_contract [of latin1 "[linha_vila_nova]" ?cc "[linha_perfil]" ?pc 2 ?pc
      linha_perfil]
  have c: "length (filter (startswith (py ''INSERT INTO ''))
     (gerar_inserts_linhas latin1 [linha_vila_nova] ?cc [linha_perfil] ?pc))
     = length [linha_vila_nova] + length [linha_perfil]"
    using g by blast
  have "(2::nat) < length ?pc" by simp
  then have v: "valores_insert latin1 ?pc linha_perfil ! 2 =
        (case linha_perfil (?pc ! 2) of None \<Rightarrow> py ''NULL''
         | Some v \<Rightarrow> escapar_sql_string latin1 v)"
    using g by blast
  have a: "linha_perfil (?pc ! 2) = None" by (simp add: eval_defs linha_perfil_def)
  have v': "valores_insert latin1 ?pc linha_perfil ! 2 = py ''NULL''"
    unfolding v a by simp
  from c have c': "length (filter (startswith (py ''INSERT INTO ''))
     (gerar_inserts_linhas latin1 [linha_vila_nova] ?cc [linha_perfil] ?pc)) = 2"
    by simp
  from ex_inserts c' v' show ?thesis by blast
qed

text \<open>
  Claim C10 says that \<^verbatim>\<open>perfil_id\<close> never appears in any \<^verbatim>\<open>INSERT\<close>.  A perfis file
  whose header has a column \<^verbatim>\<open>perfil_id\<close> gives an \<^verbatim>\<open>INSERT\<close> that names it.
\<close>

theorem perfil_id_in_insert:
  "gerar_inserts_linhas latin1 [] [] [linha_perfil_id] [py ''perfil_id''] =
     [py ''-- Inserts gerados automaticamente'', py ''-- Encoding: UTF-8'' @ [10],
      py ''-- Inserindo comunidades'' @ [10],
      [10] @ py ''-- Inserindo perfis'' @ [10],
      py ''INSERT INTO perfis (perfil_id)'', py ''VALUES ('1');'', []] \<and>
   contains (py ''perfil_id'') (gerar_inserts latin1 [] [] [linha_perfil_id] [py ''perfil_id''])"
  by (simp add: eval_defs linha_perfil_id_def)

text \<open>
  Claim C10, amended.  The insert generator never adds the synthetic key: the column
  list of every \<^verbatim>\<open>INSERT\<close> is exactly the normalized source field names in field
  order, so \<^verbatim>\<open>perfil_id\<close> is in the column list of a perfis \<^verbatim>\<open>INSERT\<close> only when a
  source field itself normalizes to \<^verbatim>\<open>perfil_id\<close>; and in every generated
  \<^verbatim>\<open>INSERT\<close> the number of column names equals the number of values.
\<close>

theorem perfis_insert_columns:
  "inserts_perfis U pc sql pd =
     sql @ concat (map (\<lambda>linha.
        [py ''INSERT INTO perfis ('' @ join (py '', '') (colunas_insert U pc) @ py '')'',
         py ''VALUES ('' @ join (py '', '') (valores_insert U pc linha) @ py '');'',
         []]) pd) \<and>
   inserts_comunidades U cc sql cd =
     sql @ concat (map (\<lambda>linha.
        [py ''INSERT INTO comunidades ('' @ join (py '', '') (colunas_insert U cc) @ py '')'',
         py ''VALUES ('' @ join (py '', '') (valores_insert U cc linha) @ py '');'',
         []]) cd) \<and>
   colunas_insert U campos = map (normalizar_nome_coluna U) campos \<and>
   length (colunas_insert U campos) = length (valores_insert U campos linha) \<and>
   (py ''perfil_id'' \<in> set (colunas_insert U pc) \<longleftrightarrow>
      (\<exists>c \<in> set pc. normalizar_nome_coluna U c = py ''perfil_id''))"
proof -
  have 1: "insert_statement U (py ''perfis'') pc =
     (\<lambda>linha. [py ''INSERT INTO perfis ('' @ join (py '', '') (colunas_insert U pc) @ py '')'',
         py ''VALUES ('' @ join (py '', '') (valores_insert U pc linha) @ py '');'', []])"
    by (rule ext) (simp add: insert_statement_def py_def)
  have 2: "insert_statement U (py ''comunidades'') cc =
     (\<lambda>linha. [py ''INSERT INTO comunidades ('' @ join (py '', '') (colunas_insert U cc) @ py '')'',
         py ''VALUES ('' @ join (py '', '') (valores_insert U cc linha) @ py '');'', []])"
    by (rule ext) (simp add: insert_statement_def py_def)
  have 3: "py ''perfil_id'' \<in> set (colunas_insert U pc) \<longleftrightarrow>
      (\<exists>c \<in> set pc. normalizar_nome_coluna U c = py ''perfil_id'')"
    unfolding colunas_insert_def set_map image_iff by metis
  show ?thesis
    unfolding inserts_perfis_eq inserts_comunidades_eq 1 2
    using 3 by (simp add: colunas_insert_def valores_insert_def)
qed

text \<open>A perfis file with three columns, none of them the key.\<close>

theorem perfis_insert_columns_witness:
  "inserts_perfis latin1 [py ''ID Questionario'', py ''Nome'', py ''Idade''] [] [linha_perfil] =
     [py ''INSERT INTO perfis (id_questionario, nome, idade)'',
      py ''VALUES ('7', NULL, NULL);'', []] \<and>
   colunas_insert latin1 [py ''ID Questionario'', py ''Nome'', py ''Idade''] =
     [py ''id_questionario'', py ''nome'', py ''idade''] \<and>
   length (colunas_insert latin1 [py ''ID Questionario'', py ''Nome'', py ''Idade'']) =
     length (valores_insert latin1 [py ''ID Questionario'', py ''Nome'', py ''Idade''] linha_perfil) \<and>
   py ''perfil_id'' \<notin> set (colunas_insert latin1 [py ''ID Questionario'', py ''Nome'', py ''Idade''])"
proof -
  have e: "colunas_insert latin1 [py ''ID Questionario'', py ''Nome'', py ''Idade''] =
     [py ''id_questionario'', py ''nome'', py ''idade'']" by (simp add: eval_defs colunas_insert_def)
  have n: "py ''perfil_id'' \<notin> set [py ''id_questionario'', py ''nome'', py ''idade'']"
    by (simp add: py_def)
  have i: "inserts_perfis latin1 [py ''ID Questionario'', py ''Nome'', py ''Idade''] [] [linha_perfil] =
     [py ''INSERT INTO perfis (id_questionario, nome, idade)'',
      py ''VALUES ('7', NULL, NULL);'', []]" by (simp add: eval_defs linha_perfil_def)
  from perfis_insert_columns [of latin1 "[py ''ID Questionario'', py ''Nome'', py ''Idade'']" "[]"
      "[linha_perfil]" "[]" "[]" "[py ''ID Questionario'', py ''Nome'', py ''Idade'']" linha_perfil]
  have "length (colunas_insert latin1 [py ''ID Questionario'', py ''Nome'', py ''Idade'']) =
     length (valores_insert latin1 [py ''ID Questionario'', py ''Nome'', py ''Idade''] linha_perfil)"
    by blast
  with e n i show ?thesis by simp
qed

section \<open>Lemmas on the schema generator\<close>

lemma colunas_comunidades_eq:
  "colunas_comunidades U colunas campos = colunas @ map (linha_comunidades U) campos"
  by (induction campos arbitrary: colunas) (simp_all add: linha_comunidades_def Let_def)

lemma colunas_perfis_eq:
  "colunas_perfis U i colunas campos =
     colunas
     @ (if i = 0 \<and> campos \<noteq> [] then [py ''    perfil_id INTEGER PRIMARY KEY AUTOINCREMENT''] else [])
     @ concat (map (linhas_perfis U) campos)"
  by (induction campos arbitrary: i colunas) (simp_all add: linhas_perfis_def Let_def)

lemma gerar_schema_eq:
  "gerar_schema U cc pc =
     py ''-- Schema gerado automaticamente'' @ [10] @ py ''-- Encoding: UTF-8'' @ [10, 10]
     @ py ''DROP TABLE IF EXISTS perfis;'' @ [10]
     @ py ''DROP TABLE IF EXISTS comunidades;'' @ [10, 10]
     @ py ''CREATE TABLE comunidades ('' @ [10]
     @ join (py '','' @ [10]) (colunas_comunidades U [] cc) @ [10]
     @ py '');'' @ [10, 10]
     @ py ''CREATE TABLE perfis ('' @ [10]
     @ join (py '','' @ [10]) (colunas_perfis U 0 [] pc) @ [10]
     @ py '');'' @ [10]"
  by (simp add: gerar_schema_def Let_def)

lemma find_from_ge: "find_from i sub s = Some k \<Longrightarrow> i \<le> k"
proof (induction s arbitrary: i)
  case Nil
  then show ?case by (simp split: if_splits)
next
  case (Cons c cs)
  show ?case
  proof (cases "startswith sub (c # cs)")
    case True
    with Cons.prems show ?thesis by simp
  next
    case False
    with Cons.prems have "find_from (Suc i) sub cs = Some k" by simp
    then have "Suc i \<le> k" by (rule Cons.IH)
    then show ?thesis by simp
  qed
qed

lemma find_from_exists: "\<exists>k. find_from i sub (xs @ sub @ ys) = Some k"
proof (induction xs arbitrary: i)
  case Nil
  show ?case
  proof (cases "sub @ ys")
    case Nil
    then show ?thesis by simp
  next
    case (Cons c cs)
    then have "startswith sub (c # cs)" using startswith_append [of sub ys] by simp
    with Cons show ?thesis by simp
  qed
next
  case (Cons x xs)
  then show ?case by simp
qed

lemma find_drop_perfis:
  "str_find (py ''DROP TABLE IF EXISTS perfis'') (gerar_schema U cc pc) = Some 53"
  by (simp add: gerar_schema_eq str_find_def py_def)

lemma find_drop_comunidades:
  "str_find (py ''DROP TABLE IF EXISTS comunidades'') (gerar_schema U cc pc) = Some 82"
  by (simp add: gerar_schema_eq str_find_def py_def)

lemma find_create_comunidades:
  "str_find (py ''CREATE TABLE comunidades'') (gerar_schema U cc pc) = Some 117"
  by (simp add: gerar_schema_eq str_find_def py_def)

lemma find_create_perfis_skip:
  "\<exists>m. find_from 0 (py ''CREATE TABLE perfis'')
     (py ''-- Schema gerado automaticamente'' @ [10] @ py ''-- Encoding: UTF-8'' @ [10, 10]
      @ py ''DROP TABLE IF EXISTS perfis;'' @ [10]
      @ py ''DROP TABLE IF EXISTS comunidades;'' @ [10, 10]
      @ py ''CREATE TABLE comunidades ('' @ [10] @ r)
   = find_from m (py ''CREATE TABLE perfis'') r \<and> 117 < m"
  by (simp add: py_def) (rule exI, rule conjI [OF refl], simp)

lemma find_create_perfis:
  "\<exists>l. str_find (py ''CREATE TABLE perfis'') (gerar_schema U cc pc) = Some l \<and> 117 < l"
proof -
  let ?r = "join (py '','' @ [10]) (colunas_comunidades U [] cc) @ [10] @ py '');'' @ [10, 10]"
  let ?t = "py '' ('' @ [10] @ join (py '','' @ [10]) (colunas_perfis U 0 [] pc) @ [10]
     @ py '');'' @ [10]"
  have split: "gerar_schema U cc pc =
     py ''-- Schema gerado automaticamente'' @ [10] @ py ''-- Encoding: UTF-8'' @ [10, 10]
      @ py ''DROP TABLE IF EXISTS perfis;'' @ [10]
      @ py ''DROP TABLE IF EXISTS comunidades;'' @ [10, 10]
      @ py ''CREATE TABLE comunidades ('' @ [10] @ (?r @ py ''CREATE TABLE perfis'' @ ?t)"
    by (simp add: gerar_schema_eq py_def)
  obtain m where m: "str_find (py ''CREATE TABLE perfis'') (gerar_schema U cc pc)
      = find_from m (py ''CREATE TABLE perfis'') (?r @ py ''CREATE TABLE perfis'' @ ?t)"
      and lt: "117 < m"
    unfolding str_find_def split using find_create_perfis_skip by blast
  obtain l where l: "find_from m (py ''CREATE TABLE perfis'') (?r @ py ''CREATE TABLE perfis'' @ ?t)
      = Some l"
    using find_from_exists by blast
  then have "m \<le> l" by (rule find_from_ge)
  with m l lt show ?thesis by auto
qed

lemma ex_colunas_perfis:
  "colunas_perfis latin1 0 [] [py ''ID Questionario'', py ''Nome''] =
     [py ''    perfil_id INTEGER PRIMARY KEY AUTOINCREMENT'',
      py ''    id_questionario INTEGER'',
      py ''    FOREIGN KEY (id_questionario) REFERENCES comunidades(numero_do_questionario)'',
      py ''    nome TEXT'']"
  by (simp add: eval_defs)

lemma ex_schema:
  "gerar_schema latin1 [py ''Numero do Questionario'', py ''Nome'']
     [py ''ID Questionario'', py ''Nome''] =
   py ''-- Schema gerado automaticamente'' @ [10] @ py ''-- Encoding: UTF-8'' @ [10, 10]
   @ py ''DROP TABLE IF EXISTS perfis;'' @ [10]
   @ py ''DROP TABLE IF EXISTS comunidades;'' @ [10, 10]
   @ py ''CREATE TABLE comunidades ('' @ [10]
   @ py ''    numero_do_questionario INTEGER PRIMARY KEY,'' @ [10]
   @ py ''    nome TEXT'' @ [10]
   @ py '');'' @ [10, 10]
   @ py ''CREATE TABLE perfis ('' @ [10]
   @ py ''    perfil_id INTEGER PRIMARY KEY AUTOINCREMENT,'' @ [10]
   @ py ''    id_questionario INTEGER,'' @ [10]
   @ py ''    FOREIGN KEY (id_questionario) REFERENCES comunidades(numero_do_questionario),'' @ [10]
   @ py ''    nome TEXT'' @ [10]
   @ py '');'' @ [10]"
  by (simp add: eval_defs)

lemma ex_find_create_perfis:
  "str_find (py ''CREATE TABLE perfis'')
     (gerar_schema latin1 [py ''Numero do Questionario'', py ''Nome'']
        [py ''ID Questionario'', py ''Nome'']) = Some 210"
  by (simp add: eval_defs)

section \<open>The claims on the schema generator\<close>

text \<open>
  Claim C8.  For every pair of field lists, non-empty ones in particular, the first
  \<^verbatim>\<open>DROP TABLE IF EXISTS perfis\<close> of the schema text (at index 53) comes before the
  first \<^verbatim>\<open>DROP TABLE IF EXISTS comunidades\<close> (at index 82), and the first
  \<^verbatim>\<open>CREATE TABLE comunidades\<close> (at index 117) before the first
  \<^verbatim>\<open>CREATE TABLE perfis\<close>.
\<close>

theorem schema_statement_order:
  "str_find (py ''DROP TABLE IF EXISTS perfis'') (gerar_schema U cc pc) = Some 53 \<and>
   str_find (py ''DROP TABLE IF EXISTS comunidades'') (gerar_schema U cc pc) = Some 82 \<and>
   str_find (py ''CREATE TABLE comunidades'') (gerar_schema U cc pc) = Some 117 \<and>
   (\<exists>l. str_find (py ''CREATE TABLE perfis'') (gerar_schema U cc pc) = Some l \<and> 117 < l)"
  using find_drop_perfis find_drop_comunidades find_create_comunidades find_create_perfis
  by blast

text \<open>The four positions in the schema of two field lists of two fields each.\<close>

theorem schema_statement_order_witness:
  "str_find (py ''DROP TABLE IF EXISTS perfis'')
     (gerar_schema latin1 [py ''Numero do Questionario'', py ''Nome'']
        [py ''ID Questionario'', py ''Nome'']) = Some 53 \<and>
   str_find (py ''DROP TABLE IF EXISTS comunidades'')
     (gerar_schema latin1 [py ''Numero do Questionario'', py ''Nome'']
        [py ''ID Questionario'', py ''Nome'']) = Some 82 \<and>
   str_find (py ''CREATE TABLE comunidades'')
     (gerar_schema latin1 [py ''Numero do Questionario'', py ''Nome'']
        [py ''ID Questionario'', py ''Nome'']) = Some 117 \<and>
   str_find (py ''CREATE TABLE perfis'')
     (gerar_schema latin1 [py ''Numero do Questionario'', py ''Nome'']
        [py ''ID Questionario'', py ''Nome'']) = Some 210"
  using schema_statement_order [of latin1 "[py ''Numero do Questionario'', py ''Nome'']"
      "[py ''ID Questionario'', py ''Nome'']"] ex_find_create_perfis
  by blast

text \<open>
  Claim C2.  For a non-empty perfis field list the first two column lines are the
  synthetic \<^verbatim>\<open>perfil_id INTEGER PRIMARY KEY AUTOINCREMENT\<close> and, right after it, the
  column line of the first field itself.  Every field whose lowercased raw name
  contains \<^verbatim>\<open>id\<close> and \<^verbatim>\<open>questionario\<close> gives its own column line followed by a
  \<^verbatim>\<open>FOREIGN KEY\<close> clause that names the literal column
  \<^verbatim>\<open>comunidades(numero_do_questionario)\<close>; the perfis lines are computed from the
  perfis field list alone and are joined into the \<^verbatim>\<open>CREATE TABLE perfis\<close> statement.
\<close>

theorem perfis_schema_columns:
  "take 2 (colunas_perfis U 0 [] (c # cs)) =
     [py ''    perfil_id INTEGER PRIMARY KEY AUTOINCREMENT'',
      py ''    '' @ normalizar_nome_coluna U c @ py '' '' @ inferir_tipo_coluna U c] \<and>
   (f \<in> set campos \<and> contains (py ''id'') (lower U f)
      \<and> contains (py ''questionario'') (lower U f) \<longrightarrow>
      (\<exists>pre post. colunas_perfis U 0 [] campos =
         pre @ [py ''    '' @ normalizar_nome_coluna U f @ py '' '' @ inferir_tipo_coluna U f,
                py ''    FOREIGN KEY ('' @ normalizar_nome_coluna U f
                  @ py '') REFERENCES comunidades(numero_do_questionario)''] @ post)) \<and>
   gerar_schema U cc campos =
     py ''-- Schema gerado automaticamente'' @ [10] @ py ''-- Encoding: UTF-8'' @ [10, 10]
     @ py ''DROP TABLE IF EXISTS perfis;'' @ [10]
     @ py ''DROP TABLE IF EXISTS comunidades;'' @ [10, 10]
     @ py ''CREATE TABLE comunidades ('' @ [10]
     @ join (py '','' @ [10]) (colunas_comunidades U [] cc) @ [10]
     @ py '');'' @ [10, 10]
     @ py ''CREATE TABLE perfis ('' @ [10]
     @ join (py '','' @ [10]) (colunas_perfis U 0 [] campos) @ [10]
     @ py '');'' @ [10]"
proof -
  have 1: "take 2 (colunas_perfis U 0 [] (c # cs)) =
     [py ''    perfil_id INTEGER PRIMARY KEY AUTOINCREMENT'',
      py ''    '' @ normalizar_nome_coluna U c @ py '' '' @ inferir_tipo_coluna U c]"
    by (simp add: colunas_perfis_eq linhas_perfis_def)
  have 2: "\<exists>pre post. colunas_perfis U 0 [] campos =
         pre @ [py ''    '' @ normalizar_nome_coluna U f @ py '' '' @ inferir_tipo_coluna U f,
                py ''    FOREIGN KEY ('' @ normalizar_nome_coluna U f
                  @ py '') REFERENCES comunidades(numero_do_questionario)''] @ post"
    if f: "f \<in> set campos" and k: "contains (py ''id'') (lower U f)"
      "contains (py ''questionario'') (lower U f)"
  proof -
    from f obtain xs ys where c: "campos = xs @ f # ys" by (auto dest: split_list)
    have l: "linhas_perfis U f =
       [py ''    '' @ normalizar_nome_coluna U f @ py '' '' @ inferir_tipo_coluna U f,
        py ''    FOREIGN KEY ('' @ normalizar_nome_coluna U f
           @ py '') REFERENCES comunidades(numero_do_questionario)'']"
      using k by (simp add: linhas_perfis_def)
    have "colunas_perfis U 0 [] campos =
      ([py ''    perfil_id INTEGER PRIMARY KEY AUTOINCREMENT''] @ concat (map (linhas_perfis U) xs))
      @ linhas_perfis U f @ concat (map (linhas_perfis U) ys)"
      by (simp add: colunas_perfis_eq c)
    then show ?thesis unfolding l by blast
  qed
  from 1 2 gerar_schema_eq [of U cc campos] show ?thesis by blast
qed

text \<open>A perfis file whose first field is the foreign key.\<close>

theorem perfis_schema_columns_witness:
  "colunas_perfis latin1 0 [] [py ''ID Questionario'', py ''Nome''] =
     [py ''    perfil_id INTEGER PRIMARY KEY AUTOINCREMENT'',
      py ''    id_questionario INTEGER'',
      py ''    FOREIGN KEY (id_questionario) REFERENCES comunidades(numero_do_questionario)'',
      py ''    nome TEXT''] \<and>
   take 2 (colunas_perfis latin1 0 [] [py ''ID Questionario'', py ''Nome'']) =
     [py ''    perfil_id INTEGER PRIMARY KEY AUTOINCREMENT'',
      py ''    '' @ normalizar_nome_coluna latin1 (py ''ID Questionario'') @ py '' ''
        @ inferir_tipo_coluna latin1 (py ''ID Questionario'')] \<and>
   contains (py ''id'') (lower latin1 (py ''ID Questionario'')) \<and>
   contains (py ''questionario'') (lower latin1 (py ''ID Questionario'')) \<and>
   (\<exists>pre post. colunas_perfis latin1 0 [] [py ''ID Questionario'', py ''Nome''] =
      pre @ [py ''    '' @ normalizar_nome_coluna latin1 (py ''ID Questionario'') @ py '' ''
               @ inferir_tipo_coluna latin1 (py ''ID Questionario''),
             py ''    FOREIGN KEY ('' @ normalizar_nome_coluna latin1 (py ''ID Questionario'')
               @ py '') REFERENCES comunidades(numero_do_questionario)''] @ post)"
proof -
  have k: "contains (py ''id'') (lower latin1 (py ''ID Questionario''))"
    "contains (py ''questionario'') (lower latin1 (py ''ID Questionario''))"
    by (simp_all add: eval_defs)
  have m: "py ''ID Questionario'' \<in> set [py ''ID Questionario'', py ''Nome'']" by simp
  note t = perfis_schema_columns [of latin1 "py ''ID Questionario''" "[py ''Nome'']"
      "py ''ID Questionario''" "[py ''ID Questionario'', py ''Nome'']" "[]"]
  from t have a: "take 2 (colunas_perfis latin1 0 [] [py ''ID Questionario'', py ''Nome'']) =
     [py ''    perfil_id INTEGER PRIMARY KEY AUTOINCREMENT'',
      py ''    '' @ normalizar_nome_coluna latin1 (py ''ID Questionario'') @ py '' ''
        @ inferir_tipo_coluna latin1 (py ''ID Questionario'')]" by blast
  from t m k have b: "\<exists>pre post. colunas_perfis latin1 0 [] [py ''ID Questionario'', py ''Nome''] =
      pre @ [py ''    '' @ normalizar_nome_coluna latin1 (py ''ID Questionario'') @ py '' ''
               @ inferir_tipo_coluna latin1 (py ''ID Questionario''),
             py ''    FOREIGN KEY ('' @ normalizar_nome_coluna latin1 (py ''ID Questionario'')
               @ py '') REFERENCES comunidades(numero_do_questionario)''] @ post" by blast
  from ex_colunas_perfis a b k show ?thesis by blast
qed

section \<open>Lemmas on ASCII field names\<close>

lemma combining_ascii: "unicode_on_ascii U \<Longrightarrow> c < 128 \<Longrightarrow> combining U c = 0"
  by (simp add: unicode_on_ascii_def is_ascii_def)

lemma isdigit_ascii: "unicode_on_ascii U \<Longrightarrow> c < 128 \<Longrightarrow> isdigit U c = ascii_digit c"
  by (simp add: unicode_on_ascii_def is_ascii_def)

lemma nfkd_ascii: "unicode_on_ascii U \<Longrightarrow> list_all is_ascii s \<Longrightarrow> nfkd U s = s"
  by (simp add: unicode_on_ascii_def)

lemma nucleo_on_ascii:
  assumes U: "unicode_on_ascii U" and n: "list_all is_ascii n"
  shows "nucleo U n = strip_chars (\<lambda>c. c = 95) (re_sub_nonalnum n)"
proof -
  have "\<forall>c\<in>set n. combining U c = 0"
    using U n by (auto simp: list_all_iff unicode_on_ascii_def)
  then have "filter (\<lambda>c. combining U c = 0) n = n" by (simp add: filter_id_conv)
  then show ?thesis by (simp add: nucleo_def nfkd_ascii [OF U n])
qed

lemma normalizar_on_ascii:
  assumes U: "unicode_on_ascii U" and n: "list_all is_ascii n"
  shows "normalizar_nome_coluna U n = normalizar_nome_coluna latin1 n"
  by (simp only: normalizar_eq [OF U] normalizar_eq [OF latin1_on_ascii]
      nucleo_on_ascii [OF U n] nucleo_on_ascii [OF latin1_on_ascii n])

lemma lower_on_ascii:
  assumes U: "unicode_on_ascii U" and n: "list_all is_ascii n"
  shows "lower U n = lower latin1 n"
  by (simp only: lower_ascii [OF U n] lower_ascii [OF latin1_on_ascii n])

lemma linha_comunidades_on_ascii:
  assumes U: "unicode_on_ascii U" and n: "list_all is_ascii n"
  shows "linha_comunidades U n = linha_comunidades latin1 n"
  by (simp only: linha_comunidades_def normalizar_on_ascii [OF U n] inferir_on_ascii [OF U n]
      lower_on_ascii [OF U n])

lemma asc_numero: "list_all is_ascii (py ''Numero do Questionario'')"
  by (simp add: eval_defs)

lemma asc_vila: "list_all is_ascii (py ''Vila Nova'')" "list_all is_ascii (py ''7'')"
  by (simp_all add: eval_defs)

lemma ex_linha_numero:
  "linha_comunidades latin1 (py ''Numero do Questionario'') =
     py ''    numero_do_questionario INTEGER PRIMARY KEY''"
  by (simp add: linha_comunidades_def eval_defs)

lemma ex_linha_nome: "linha_comunidades latin1 (py ''Nome'') = py ''    nome TEXT''"
  by (simp add: linha_comunidades_def eval_defs)

lemma ex_norm_numero:
  "normalizar_nome_coluna latin1 (py ''Numero do Questionario'') = py ''numero_do_questionario''"
  by (simp add: eval_defs)

lemma ex_norm_nome: "normalizar_nome_coluna latin1 (py ''Nome'') = py ''nome''"
  by (simp add: eval_defs)

lemma ex_esc_7: "escapar_sql_string latin1 (Some (py ''7'')) = ([39] @ py ''7'' @ [39])"
  by (simp add: eval_defs)

lemma ex_esc_vila: "escapar_sql_string latin1 (Some (py ''Vila Nova'')) = ([39] @ py ''Vila Nova'' @ [39])"
  by (simp add: eval_defs)

lemma vila_nova_lookup:
  "linha_vila_nova (py ''Numero do Questionario'') = Some (Some (py ''7''))"
  "linha_vila_nova (py ''Nome'') = Some (Some (py ''Vila Nova''))"
  by (simp_all add: eval_defs linha_vila_nova_def)

lemma comunidades_vila_nova:
  assumes U: "unicode_on_ascii U"
  shows "colunas_comunidades U [] [py ''Numero do Questionario'', py ''Nome''] =
           [py ''    numero_do_questionario INTEGER PRIMARY KEY'', py ''    nome TEXT'']"
  by (simp add: colunas_comunidades_eq linha_comunidades_on_ascii [OF U asc_numero]
      linha_comunidades_on_ascii [OF U asc4] ex_linha_numero ex_linha_nome)

lemma insert_vila_nova:
  assumes U: "unicode_on_ascii U"
  shows "insert_statement U (py ''comunidades'') [py ''Numero do Questionario'', py ''Nome'']
           linha_vila_nova =
         [py ''INSERT INTO comunidades (numero_do_questionario, nome)'',
          py ''VALUES ('7', 'Vila Nova');'', []]"
proof -
  have c: "colunas_insert U [py ''Numero do Questionario'', py ''Nome''] =
      [py ''numero_do_questionario'', py ''nome'']"
    by (simp add: colunas_insert_def normalizar_on_ascii [OF U asc_numero]
        normalizar_on_ascii [OF U asc4] ex_norm_numero ex_norm_nome)
  have v: "valores_insert U [py ''Numero do Questionario'', py ''Nome''] linha_vila_nova =
      [([39] @ py ''7'' @ [39]), ([39] @ py ''Vila Nova'' @ [39])]"
    by (simp add: valores_insert_def vila_nova_lookup escapar_on_ascii [OF U asc_vila(1)]
        escapar_on_ascii [OF U asc_vila(2)] ex_esc_7 ex_esc_vila)
  show ?thesis
    unfolding insert_statement_def c v by (simp add: py_def)
qed

lemma latin1_cabecalho:
  "lower latin1 cabecalho_acentuado = [110, 0xFA] @ py ''mero do question'' @ [0xE1] @ py ''rio''"
  "nfkd latin1 cabecalho_acentuado =
     [78, 117, 0x301] @ py ''mero do Question'' @ [97, 0x301] @ py ''rio''"
  "combining latin1 0x301 \<noteq> 0"
  by (simp_all add: cabecalho_acentuado_def eval_defs)

lemma normalizar_cabecalho:
  assumes U: "unicode_on_ascii U"
    and n: "nfkd U cabecalho_acentuado =
              [78, 117, 0x301] @ py ''mero do Question'' @ [97, 0x301] @ py ''rio''"
    and c: "combining U 0x301 \<noteq> 0"
  shows "normalizar_nome_coluna U cabecalho_acentuado = py ''numero_do_questionario''"
proof -
  have f: "filter (\<lambda>c. combining U c = 0) (nfkd U cabecalho_acentuado) = py ''Numero do Questionario''"
    unfolding n using c by (simp add: py_def combining_ascii [OF U])
  have "nucleo U cabecalho_acentuado = nucleo U (py ''Numero do Questionario'')"
    unfolding nucleo_on_ascii [OF U asc_numero] by (simp only: nucleo_def f)
  then have "normalizar_nome_coluna U cabecalho_acentuado =
      normalizar_nome_coluna U (py ''Numero do Questionario'')"
    by (simp only: normalizar_eq [OF U])
  then show ?thesis
    by (simp only: normalizar_on_ascii [OF U asc_numero] ex_norm_numero)
qed

lemma detection_cabecalho:
  assumes l: "lower U cabecalho_acentuado =
              [110, 0xFA] @ py ''mero do question'' @ [0xE1] @ py ''rio''"
  shows "inferir_tipo_coluna U cabecalho_acentuado = py ''TEXT''"
    and "\<not> contains (py ''numero'') (lower U cabecalho_acentuado)"
    and "\<not> contains (py ''questionario'') (lower U cabecalho_acentuado)"
    and "\<not> contains (py ''id'') (lower U cabecalho_acentuado)"
  unfolding inferir_tipo_coluna_def l by (simp_all add: py_def)

section \<open>The end-to-end example and the accented header\<close>

text \<open>
  Claim C1.  For the field list \<^verbatim>\<open>Numero do Questionario\<close>, \<^verbatim>\<open>Nome\<close> and the one record
  with the values \<^verbatim>\<open>7\<close> and \<^verbatim>\<open>Vila Nova\<close>, the column definitions of the comunidades
  table are exactly \<^verbatim>\<open>numero_do_questionario INTEGER PRIMARY KEY\<close> followed by
  \<^verbatim>\<open>nome TEXT\<close>, and the insert generator emits the statement
  \<^verbatim>\<open>INSERT INTO comunidades (numero_do_questionario, nome) VALUES ('7', 'Vila Nova');\<close>
  with the number quoted.  The generator puts \<^verbatim>\<open>VALUES\<close> on a line of its own; the two
  lines joined by a space are the statement of the claim.
\<close>

theorem end_to_end_vila_nova:
  assumes U: "unicode_on_ascii U"
  shows "colunas_comunidades U [] [py ''Numero do Questionario'', py ''Nome''] =
           [py ''    numero_do_questionario INTEGER PRIMARY KEY'', py ''    nome TEXT''] \<and>
         gerar_schema U [py ''Numero do Questionario'', py ''Nome''] pc =
           py ''-- Schema gerado automaticamente'' @ [10] @ py ''-- Encoding: UTF-8'' @ [10, 10]
           @ py ''DROP TABLE IF EXISTS perfis;'' @ [10]
           @ py ''DROP TABLE IF EXISTS comunidades;'' @ [10, 10]
           @ py ''CREATE TABLE comunidades ('' @ [10]
           @ py ''    numero_do_questionario INTEGER PRIMARY KEY,'' @ [10]
           @ py ''    nome TEXT'' @ [10]
           @ py '');'' @ [10, 10]
           @ py ''CREATE TABLE perfis ('' @ [10]
           @ join (py '','' @ [10]) (colunas_perfis U 0 [] pc) @ [10]
           @ py '');'' @ [10] \<and>
         inserts_comunidades U [py ''Numero do Questionario'', py ''Nome''] [] [linha_vila_nova] =
           [py ''INSERT INTO comunidades (numero_do_questionario, nome)'',
            py ''VALUES ('7', 'Vila Nova');'', []] \<and>
         join (py '' '') (take 2 (inserts_comunidades U [py ''Numero do Questionario'', py ''Nome'']
             [] [linha_vila_nova])) =
           py ''INSERT INTO comunidades (numero_do_questionario, nome) VALUES ('7', 'Vila Nova');'' \<and>
         gerar_inserts U [linha_vila_nova] [py ''Numero do Questionario'', py ''Nome''] [] pc =
           py ''-- Inserts gerados automaticamente'' @ [10] @ py ''-- Encoding: UTF-8'' @ [10, 10]
           @ py ''-- Inserindo comunidades'' @ [10, 10]
           @ py ''INSERT INTO comunidades (numero_do_questionario, nome)'' @ [10]
           @ py ''VALUES ('7', 'Vila Nova');'' @ [10, 10, 10]
           @ py ''-- Inserindo perfis'' @ [10]"
proof -
  note c = comunidades_vila_nova [OF U]
  have s: "gerar_schema U [py ''Numero do Questionario'', py ''Nome''] pc =
           py ''-- Schema gerado automaticamente'' @ [10] @ py ''-- Encoding: UTF-8'' @ [10, 10]
           @ py ''DROP TABLE IF EXISTS perfis;'' @ [10]
           @ py ''DROP TABLE IF EXISTS comunidades;'' @ [10, 10]
           @ py ''CREATE TABLE comunidades ('' @ [10]
           @ py ''    numero_do_questionario INTEGER PRIMARY KEY,'' @ [10]
           @ py ''    nome TEXT'' @ [10]
           @ py '');'' @ [10, 10]
           @ py ''CREATE TABLE perfis ('' @ [10]
           @ join (py '','' @ [10]) (colunas_perfis U 0 [] pc) @ [10]
           @ py '');'' @ [10]"
    unfolding gerar_schema_eq c by (simp add: py_def)
  have i: "inserts_comunidades U [py ''Numero do Questionario'', py ''Nome''] [] [linha_vila_nova] =
           [py ''INSERT INTO comunidades (numero_do_questionario, nome)'',
            py ''VALUES ('7', 'Vila Nova');'', []]"
    by (simp add: inserts_comunidades_eq insert_vila_nova [OF U])
  have j: "join (py '' '') (take 2 (inserts_comunidades U [py ''Numero do Questionario'', py ''Nome'']
             [] [linha_vila_nova])) =
           py ''INSERT INTO comunidades (numero_do_questionario, nome) VALUES ('7', 'Vila Nova');''"
    unfolding i by (simp add: py_def)
  have g: "gerar_inserts U [linha_vila_nova] [py ''Numero do Questionario'', py ''Nome''] [] pc =
           py ''-- Inserts gerados automaticamente'' @ [10] @ py ''-- Encoding: UTF-8'' @ [10, 10]
           @ py ''-- Inserindo comunidades'' @ [10, 10]
           @ py ''INSERT INTO comunidades (numero_do_questionario, nome)'' @ [10]
           @ py ''VALUES ('7', 'Vila Nova');'' @ [10, 10, 10]
           @ py ''-- Inserindo perfis'' @ [10]"
    unfolding gerar_inserts_def gerar_inserts_linhas_eq
    by (simp add: insert_vila_nova [OF U])
  from c s i j g show ?thesis by blast
qed

text \<open>The example on the Latin-1 instance of the library.\<close>

theorem end_to_end_vila_nova_witness:
  "unicode_on_ascii latin1 \<and>
   colunas_comunidades latin1 [] [py ''Numero do Questionario'', py ''Nome''] =
     [py ''    numero_do_questionario INTEGER PRIMARY KEY'', py ''    nome TEXT''] \<and>
   inserts_comunidades latin1 [py ''Numero do Questionario'', py ''Nome''] [] [linha_vila_nova] =
     [py ''INSERT INTO comunidades (numero_do_questionario, nome)'',
      py ''VALUES ('7', 'Vila Nova');'', []]"
  using end_to_end_vila_nova [OF latin1_on_ascii, of "[]"] latin1_on_ascii by blast

lemma ex_colunas_acentuado:
  "colunas_comunidades latin1 [] [py ''Nome'', cabecalho_acentuado] =
     [py ''    nome TEXT'', py ''    numero_do_questionario TEXT'']"
  "colunas_perfis latin1 0 [] [py ''Nome'', cabecalho_acentuado] =
     [py ''    perfil_id INTEGER PRIMARY KEY AUTOINCREMENT'', py ''    nome TEXT'',
      py ''    numero_do_questionario TEXT'']"
  by (simp_all add: cabecalho_acentuado_def eval_defs)

text \<open>
  Claim C9.  For every field of every field list, the test for the primary key, the
  test for the foreign key and the type inferrer read the lowercased raw field name,
  not the normalized name.  So the accented header, whose lowercased form keeps its
  accented letters and whose NFKD form puts the combining acute (U+0301) after \<^verbatim>\<open>u\<close>
  and \<^verbatim>\<open>a\<close>, gives at any position of a field list the column
  \<^verbatim>\<open>numero_do_questionario\<close> typed \<^verbatim>\<open>TEXT\<close>, not a primary key in comunidades and
  with no foreign key in perfis, while the header without accents is an
  \<^verbatim>\<open>INTEGER PRIMARY KEY\<close>.
\<close>

theorem accented_header_detection:
  assumes U: "unicode_on_ascii U"
    and l: "lower U cabecalho_acentuado =
              [110, 0xFA] @ py ''mero do question'' @ [0xE1] @ py ''rio''"
    and n: "nfkd U cabecalho_acentuado =
              [78, 117, 0x301] @ py ''mero do Question'' @ [97, 0x301] @ py ''rio''"
    and c: "combining U 0x301 \<noteq> 0"
  shows "colunas_comunidades U [] campos =
           map (\<lambda>f. py ''    '' @ normalizar_nome_coluna U f @ py '' '' @ inferir_tipo_coluna U f
                  @ (if contains (py ''numero'') (lower U f)
                        \<and> contains (py ''questionario'') (lower U f)
                     then py '' PRIMARY KEY'' else [])) campos \<and>
         colunas_perfis U 0 [] campos =
           (if campos = [] then [] else [py ''    perfil_id INTEGER PRIMARY KEY AUTOINCREMENT''])
           @ concat (map (\<lambda>f.
               [py ''    '' @ normalizar_nome_coluna U f @ py '' '' @ inferir_tipo_coluna U f]
               @ (if contains (py ''id'') (lower U f)
                     \<and> contains (py ''questionario'') (lower U f)
                  then [py ''    FOREIGN KEY ('' @ normalizar_nome_coluna U f
                          @ py '') REFERENCES comunidades(numero_do_questionario)'']
                  else [])) campos) \<and>
         colunas_comunidades U [] (xs @ cabecalho_acentuado # ys) =
           colunas_comunidades U [] xs @ [py ''    numero_do_questionario TEXT'']
           @ colunas_comunidades U [] ys \<and>
         colunas_perfis U 0 [] (xs @ cabecalho_acentuado # ys) =
           (if xs = [] then [py ''    perfil_id INTEGER PRIMARY KEY AUTOINCREMENT'']
            else colunas_perfis U 0 [] xs)
           @ [py ''    numero_do_questionario TEXT'']
           @ colunas_perfis U (Suc 0) [] ys \<and>
         colunas_comunidades U [] [campo] =
           [py ''    '' @ normalizar_nome_coluna U campo @ py '' '' @ inferir_tipo_coluna U campo
            @ (if contains (py ''numero'') (lower U campo)
                  \<and> contains (py ''questionario'') (lower U campo)
               then py '' PRIMARY KEY'' else [])] \<and>
         colunas_perfis U 0 [] [campo] =
           [py ''    perfil_id INTEGER PRIMARY KEY AUTOINCREMENT'',
            py ''    '' @ normalizar_nome_coluna U campo @ py '' '' @ inferir_tipo_coluna U campo]
           @ (if contains (py ''id'') (lower U campo)
                 \<and> contains (py ''questionario'') (lower U campo)
              then [py ''    FOREIGN KEY ('' @ normalizar_nome_coluna U campo
                      @ py '') REFERENCES comunidades(numero_do_questionario)'']
              else []) \<and>
         normalizar_nome_coluna U cabecalho_acentuado = py ''numero_do_questionario'' \<and>
         inferir_tipo_coluna U cabecalho_acentuado = py ''TEXT'' \<and>
         colunas_comunidades U [] [cabecalho_acentuado] = [py ''    numero_do_questionario TEXT''] \<and>
         colunas_perfis U 0 [] [cabecalho_acentuado] =
           [py ''    perfil_id INTEGER PRIMARY KEY AUTOINCREMENT'',
            py ''    numero_do_questionario TEXT''] \<and>
         colunas_comunidades U [] [py ''Numero do Questionario''] =
           [py ''    numero_do_questionario INTEGER PRIMARY KEY'']"
proof -
  note nm = normalizar_cabecalho [OF U n c]
  note d = detection_cabecalho [OF l]
  have lc: "linha_comunidades U cabecalho_acentuado = py ''    numero_do_questionario TEXT''"
    using d by (simp add: linha_comunidades_def nm) (simp add: py_def)
  have lp: "linhas_perfis U cabecalho_acentuado = [py ''    numero_do_questionario TEXT'']"
    using d by (simp add: linhas_perfis_def nm) (simp add: py_def)
  have a: "colunas_comunidades U [] campos =
           map (\<lambda>f. py ''    '' @ normalizar_nome_coluna U f @ py '' '' @ inferir_tipo_coluna U f
                  @ (if contains (py ''numero'') (lower U f)
                        \<and> contains (py ''questionario'') (lower U f)
                     then py '' PRIMARY KEY'' else [])) campos"
    unfolding colunas_comunidades_eq by (simp add: linha_comunidades_def)
  have b: "colunas_perfis U 0 [] campos =
           (if campos = [] then [] else [py ''    perfil_id INTEGER PRIMARY KEY AUTOINCREMENT''])
           @ concat (map (\<lambda>f.
               [py ''    '' @ normalizar_nome_coluna U f @ py '' '' @ inferir_tipo_coluna U f]
               @ (if contains (py ''id'') (lower U f)
                     \<and> contains (py ''questionario'') (lower U f)
                  then [py ''    FOREIGN KEY ('' @ normalizar_nome_coluna U f
                          @ py '') REFERENCES comunidades(numero_do_questionario)'']
                  else [])) campos)"
  proof -
    have "linhas_perfis U = (\<lambda>f.
               [py ''    '' @ normalizar_nome_coluna U f @ py '' '' @ inferir_tipo_coluna U f]
               @ (if contains (py ''id'') (lower U f)
                     \<and> contains (py ''questionario'') (lower U f)
                  then [py ''    FOREIGN KEY ('' @ normalizar_nome_coluna U f
                          @ py '') REFERENCES comunidades(numero_do_questionario)'']
                  else []))"
      by (rule ext) (simp add: linhas_perfis_def)
    then show ?thesis unfolding colunas_perfis_eq by simp
  qed
  have p: "colunas_comunidades U [] (xs @ cabecalho_acentuado # ys) =
           colunas_comunidades U [] xs @ [py ''    numero_do_questionario TEXT'']
           @ colunas_comunidades U [] ys"
    by (simp add: colunas_comunidades_eq lc)
  have q: "colunas_perfis U 0 [] (xs @ cabecalho_acentuado # ys) =
           (if xs = [] then [py ''    perfil_id INTEGER PRIMARY KEY AUTOINCREMENT'']
            else colunas_perfis U 0 [] xs)
           @ [py ''    numero_do_questionario TEXT'']
           @ colunas_perfis U (Suc 0) [] ys"
    by (simp add: colunas_perfis_eq lp)
  have 1: "colunas_comunidades U [] [campo] =
           [py ''    '' @ normalizar_nome_coluna U campo @ py '' '' @ inferir_tipo_coluna U campo
            @ (if contains (py ''numero'') (lower U campo)
                  \<and> contains (py ''questionario'') (lower U campo)
               then py '' PRIMARY KEY'' else [])]"
    by (simp add: Let_def)
  have 2: "colunas_perfis U 0 [] [campo] =
           [py ''    perfil_id INTEGER PRIMARY KEY AUTOINCREMENT'',
            py ''    '' @ normalizar_nome_coluna U campo @ py '' '' @ inferir_tipo_coluna U campo]
           @ (if contains (py ''id'') (lower U campo)
                 \<and> contains (py ''questionario'') (lower U campo)
              then [py ''    FOREIGN KEY ('' @ normalizar_nome_coluna U campo
                      @ py '') REFERENCES comunidades(numero_do_questionario)'']
              else [])"
    by (simp add: Let_def)
  have 3: "colunas_comunidades U [] [cabecalho_acentuado] = [py ''    numero_do_questionario TEXT'']"
    by (simp add: colunas_comunidades_eq lc)
  have 4: "colunas_perfis U 0 [] [cabecalho_acentuado] =
           [py ''    perfil_id INTEGER PRIMARY KEY AUTOINCREMENT'',
            py ''    numero_do_questionario TEXT'']"
    by (simp add: colunas_perfis_eq lp)
  have 5: "colunas_comunidades U [] [py ''Numero do Questionario''] =
           [py ''    numero_do_questionario INTEGER PRIMARY KEY'']"
    by (simp add: colunas_comunidades_eq linha_comunidades_on_ascii [OF U asc_numero]
        ex_linha_numero)
  from a b p q 1 2 nm d(1) 3 4 5 show ?thesis by blast
qed

text \<open>
  The Latin-1 instance has the three facts of the library the theorem assumes; the
  accented header is the second field of the list.
\<close>

theorem accented_header_detection_witness:
  "unicode_on_ascii latin1 \<and>
   lower latin1 cabecalho_acentuado = [110, 0xFA] @ py ''mero do question'' @ [0xE1] @ py ''rio'' \<and>
   nfkd latin1 cabecalho_acentuado =
     [78, 117, 0x301] @ py ''mero do Question'' @ [97, 0x301] @ py ''rio'' \<and>
   combining latin1 0x301 = 230 \<and>
   normalizar_nome_coluna latin1 cabecalho_acentuado = py ''numero_do_questionario'' \<and>
   inferir_tipo_coluna latin1 cabecalho_acentuado = py ''TEXT'' \<and>
   colunas_comunidades latin1 [] [cabecalho_acentuado] = [py ''    numero_do_questionario TEXT''] \<and>
   colunas_perfis latin1 0 [] [cabecalho_acentuado] =
     [py ''    perfil_id INTEGER PRIMARY KEY AUTOINCREMENT'', py ''    numero_do_questionario TEXT''] \<and>
   colunas_comunidades latin1 [] ([py ''Nome''] @ cabecalho_acentuado # []) =
     colunas_comunidades latin1 [] [py ''Nome''] @ [py ''    numero_do_questionario TEXT'']
     @ colunas_comunidades latin1 [] [] \<and>
   colunas_comunidades latin1 [] [py ''Nome'', cabecalho_acentuado] =
     [py ''    nome TEXT'', py ''    numero_do_questionario TEXT''] \<and>
   colunas_perfis latin1 0 [] [py ''Nome'', cabecalho_acentuado] =
     [py ''    perfil_id INTEGER PRIMARY KEY AUTOINCREMENT'', py ''    nome TEXT'',
      py ''    numero_do_questionario TEXT'']"
proof -
  have "combining latin1 0x301 = 230" by (simp add: eval_defs)
  then show ?thesis
    using accented_header_detection [OF latin1_on_ascii latin1_cabecalho,
        of "[]" "[py ''Nome'']" "[]" "[]"]
      latin1_on_ascii latin1_cabecalho(1,2) ex_colunas_acentuado
    by blast
qed

end
